theory Spec2Isabelle
  imports Complex_Main
begin

section \<open>Numbers and vectors\<close>

text \<open>
  The program computes with JavaScript numbers. The embedding takes them as real numbers:
  rounding, overflow, infinities and NaN are outside the model. The only infinity the
  modelled code writes down, the initial \<open>closestDistance = Infinity\<close> of
  \<open>circleHexagonCollision\<close>, is the value \<open>None\<close> of an option.
  Every division of the modelled code is guarded against a zero divisor by the code itself,
  except the one in \<open>limitVelocity\<close>, whose divisor is zero only when
  \<open>maxVelocity\<close> is negative and the ball is at rest; the properties of \<open>update\<close>
  proved below assume a speed within the cap or a cap that is not negative, or do not look
  at the velocity.

  \<open>Math.random()\<close> is a parameter: the functions that call it take the draws as
  arguments, in the order in which the code makes them.
\<close>

text \<open>class \<open>Vector2D\<close>; the fields \<open>x\<close> and \<open>y\<close> are \<open>vec_x\<close> and \<open>vec_y\<close>.\<close>

datatype Vector2D = Vector2D (vec_x: real) (vec_y: real)

definition add :: "Vector2D \<Rightarrow> Vector2D \<Rightarrow> Vector2D" where
  "add this other = Vector2D (vec_x this + vec_x other) (vec_y this + vec_y other)"

definition subtract :: "Vector2D \<Rightarrow> Vector2D \<Rightarrow> Vector2D" where
  "subtract this other = Vector2D (vec_x this - vec_x other) (vec_y this - vec_y other)"

definition multiply :: "Vector2D \<Rightarrow> real \<Rightarrow> Vector2D" where
  "multiply this scalar = Vector2D (vec_x this * scalar) (vec_y this * scalar)"

definition divide_v :: "Vector2D \<Rightarrow> real \<Rightarrow> Vector2D" where
  "divide_v this scalar = Vector2D (vec_x this / scalar) (vec_y this / scalar)"

definition dot :: "Vector2D \<Rightarrow> Vector2D \<Rightarrow> real" where
  "dot this other = vec_x this * vec_x other + vec_y this * vec_y other"

definition magnitude :: "Vector2D \<Rightarrow> real" where
  "magnitude this = sqrt (vec_x this * vec_x this + vec_y this * vec_y this)"

definition magnitudeSquared :: "Vector2D \<Rightarrow> real" where
  "magnitudeSquared this = vec_x this * vec_x this + vec_y this * vec_y this"

definition normalize :: "Vector2D \<Rightarrow> Vector2D" where
  "normalize this =
     (let mag = magnitude this in
      if mag = 0 then Vector2D 0 0 else divide_v this mag)"

definition distance :: "Vector2D \<Rightarrow> Vector2D \<Rightarrow> real" where
  "distance this other =
     (let dx = vec_x this - vec_x other; dy = vec_y this - vec_y other in
      sqrt (dx * dx + dy * dy))"

section \<open>Hexagon geometry\<close>

text \<open>interface \<open>HexagonEdge\<close>; the fields \<open>start\<close> and \<open>end\<close> are \<open>e_start\<close> and \<open>e_end\<close>.\<close>

record HexagonEdge =
  e_start :: Vector2D
  e_end :: Vector2D
  normal :: Vector2D

record Hexagon =
  center :: Vector2D
  radius :: real
  vertices :: "Vector2D list"
  edges :: "HexagonEdge list"
  rotation :: real

text \<open>The body of the first loop of \<open>createHexagon\<close>: the vertex pushed at index \<open>i\<close>.\<close>

definition hexVertex :: "Vector2D \<Rightarrow> real \<Rightarrow> real \<Rightarrow> nat \<Rightarrow> Vector2D" where
  "hexVertex c r rot i =
     (let angle = (real i * pi) / 3 + rot in
      Vector2D (vec_x c + r * cos angle) (vec_y c + r * sin angle))"

text \<open>The body of the second loop: the edge pushed at index \<open>i\<close>, read from the vertex array.\<close>

definition hexEdge :: "Vector2D list \<Rightarrow> nat \<Rightarrow> HexagonEdge" where
  "hexEdge vs i =
     (let start = vs ! i;
          end' = vs ! ((i + 1) mod 6);
          edgeVector = subtract end' start;
          n = normalize (Vector2D (- vec_y edgeVector) (vec_x edgeVector))
      in \<lparr>e_start = start, e_end = end', normal = n\<rparr>)"

definition createHexagon :: "Vector2D \<Rightarrow> real \<Rightarrow> real \<Rightarrow> Hexagon" where
  "createHexagon c r rot =
     (let vs = map (hexVertex c r rot) [0..<6];
          es = map (hexEdge vs) [0..<6]
      in \<lparr>center = c, radius = r, vertices = vs, edges = es, rotation = rot\<rparr>)"

definition rotateHexagon :: "Hexagon \<Rightarrow> real \<Rightarrow> Hexagon" where
  "rotateHexagon h deltaRotation =
     createHexagon (center h) (radius h) (rotation h + deltaRotation)"

text \<open>The object returned by \<open>distanceToEdge\<close>; its field \<open>distance\<close> is \<open>res_distance\<close>.\<close>

record EdgeDistance =
  res_distance :: real
  closestPoint :: Vector2D
  isOnSegment :: bool

definition distanceToEdge :: "Vector2D \<Rightarrow> Vector2D \<Rightarrow> Vector2D \<Rightarrow> EdgeDistance" where
  "distanceToEdge point edgeStart edgeEnd =
     (let edgeVector = subtract edgeEnd edgeStart;
          pointVector = subtract point edgeStart;
          edgeLengthSquared = magnitudeSquared edgeVector
      in if edgeLengthSquared = 0
         then \<lparr>res_distance = distance point edgeStart, closestPoint = edgeStart,
               isOnSegment = True\<rparr>
         else
           (let t = max 0 (min 1 (dot pointVector edgeVector / edgeLengthSquared));
                cp = add edgeStart (multiply edgeVector t)
            in \<lparr>res_distance = distance point cp, closestPoint = cp,
                 isOnSegment = (t \<ge> 0 \<and> t \<le> 1)\<rparr>))"

text \<open>
  The loop of \<open>circleHexagonCollision\<close>. Its three variables \<open>closestEdge\<close>,
  \<open>closestDistance\<close>, \<open>closestPoint\<close> are one option: \<open>None\<close> is the initial
  \<open>(null, Infinity, null)\<close>, below which every distance lies.
\<close>

type_synonym closest = "(HexagonEdge \<times> real \<times> Vector2D) option"

definition belowClosest :: "real \<Rightarrow> closest \<Rightarrow> bool" where
  "belowClosest d acc = (case acc of None \<Rightarrow> True | Some (_, closestDistance, _) \<Rightarrow> d < closestDistance)"

fun scanEdges :: "Vector2D \<Rightarrow> HexagonEdge list \<Rightarrow> closest \<Rightarrow> closest" where
  "scanEdges circleCenter [] acc = acc"
| "scanEdges circleCenter (edge # rest) acc =
     (let result = distanceToEdge circleCenter (e_start edge) (e_end edge) in
      if belowClosest (res_distance result) acc
      then scanEdges circleCenter rest (Some (edge, res_distance result, closestPoint result))
      else scanEdges circleCenter rest acc)"

record CollisionResult =
  isColliding :: bool
  collisionEdge :: "HexagonEdge option"
  collisionPoint :: "Vector2D option"
  penetrationDepth :: "real option"

definition circleHexagonCollision :: "Vector2D \<Rightarrow> real \<Rightarrow> Hexagon \<Rightarrow> CollisionResult" where
  "circleHexagonCollision circleCenter r hexagon =
     (case scanEdges circleCenter (edges hexagon) None of
        Some (closestEdge, closestDistance, cp) \<Rightarrow>
          if closestDistance \<le> r
          then \<lparr>isColliding = True, collisionEdge = Some closestEdge,
                collisionPoint = Some cp, penetrationDepth = Some (r - closestDistance)\<rparr>
          else \<lparr>isColliding = False, collisionEdge = None, collisionPoint = None,
                penetrationDepth = None\<rparr>
      | None \<Rightarrow> \<lparr>isColliding = False, collisionEdge = None, collisionPoint = None,
                penetrationDepth = None\<rparr>)"

text \<open>What \<open>distanceToEdge\<close> returns for the circle centre \<open>p\<close> and the edge \<open>e\<close>.\<close>

abbreviation (input) edgeDist :: "Vector2D \<Rightarrow> HexagonEdge \<Rightarrow> real" where
  "edgeDist p e \<equiv> res_distance (distanceToEdge p (e_start e) (e_end e))"

abbreviation (input) edgePoint :: "Vector2D \<Rightarrow> HexagonEdge \<Rightarrow> Vector2D" where
  "edgePoint p e \<equiv> closestPoint (distanceToEdge p (e_start e) (e_end e))"

section \<open>Physics engine\<close>

record PhysicsConfig =
  gravity :: real
  friction :: real
  restitution :: real
  rotationSpeed :: real
  ballRadius :: real
  maxVelocity :: real

record BallState =
  position :: Vector2D
  velocity :: Vector2D
  acceleration :: Vector2D

record PhysicsEngine =
  config :: PhysicsConfig
  ballState :: BallState
  hexagon :: Hexagon
  isRunning :: bool

text \<open>Two successive draws of \<open>Math.random()\<close>.\<close>

type_synonym draws = "real \<times> real"

text \<open>
  The velocity that the constructor and \<open>reset\<close> both write:
  \<open>((Math.random() - 0.5) * 200, (Math.random() - 0.5) * 200)\<close>.
\<close>

definition randomVelocity :: "draws \<Rightarrow> Vector2D" where
  "randomVelocity rnd = Vector2D ((fst rnd - 0.5) * 200) ((snd rnd - 0.5) * 200)"

definition constructor :: "draws \<Rightarrow> PhysicsConfig \<Rightarrow> Hexagon \<Rightarrow> PhysicsEngine" where
  "constructor rnd cfg hex =
     \<lparr>config = cfg,
      ballState = \<lparr>position = Vector2D (vec_x (center hex)) (vec_y (center hex)),
                   velocity = randomVelocity rnd,
                   acceleration = Vector2D 0 0\<rparr>,
      hexagon = hex,
      isRunning = False\<rparr>"

definition applyGravity :: "PhysicsEngine \<Rightarrow> PhysicsEngine" where
  "applyGravity s =
     (let b = ballState s; a = acceleration b in
      s\<lparr>ballState := b\<lparr>acceleration := Vector2D (vec_x a) (vec_y a + gravity (config s))\<rparr>\<rparr>)"

definition applyFriction :: "real \<Rightarrow> PhysicsEngine \<Rightarrow> PhysicsEngine" where
  "applyFriction deltaTime s =
     (let frictionForce = friction (config s) * deltaTime;
          b = ballState s; v = velocity b in
      s\<lparr>ballState := b\<lparr>velocity :=
           Vector2D (vec_x v * (1 - frictionForce)) (vec_y v * (1 - frictionForce))\<rparr>\<rparr>)"

definition updateVelocity :: "real \<Rightarrow> PhysicsEngine \<Rightarrow> PhysicsEngine" where
  "updateVelocity deltaTime s =
     (let b = ballState s; v = velocity b; a = acceleration b in
      s\<lparr>ballState := b\<lparr>velocity :=
             Vector2D (vec_x v + vec_x a * deltaTime) (vec_y v + vec_y a * deltaTime),
           acceleration := Vector2D 0 0\<rparr>\<rparr>)"

definition limitVelocity :: "PhysicsEngine \<Rightarrow> PhysicsEngine" where
  "limitVelocity s =
     (let b = ballState s; v = velocity b; speed = magnitude v in
      if speed > maxVelocity (config s)
      then (let scale = maxVelocity (config s) / speed in
            s\<lparr>ballState := b\<lparr>velocity := Vector2D (vec_x v * scale) (vec_y v * scale)\<rparr>\<rparr>)
      else s)"

definition updatePosition :: "real \<Rightarrow> PhysicsEngine \<Rightarrow> PhysicsEngine" where
  "updatePosition deltaTime s =
     (let b = ballState s; p = position b; v = velocity b in
      s\<lparr>ballState := b\<lparr>position :=
           Vector2D (vec_x p + vec_x v * deltaTime) (vec_y p + vec_y v * deltaTime)\<rparr>\<rparr>)"

text \<open>Step 2 of \<open>resolveCollision\<close>: the value of its local \<open>reflectedVelocity\<close>.\<close>

definition reflectedVelocity :: "PhysicsConfig \<Rightarrow> HexagonEdge \<Rightarrow> Vector2D \<Rightarrow> Vector2D" where
  "reflectedVelocity cfg edge incidentVelocity =
     (let n = normal edge;
          dotProduct = dot incidentVelocity n
      in Vector2D (vec_x incidentVelocity - 2 * dotProduct * vec_x n * restitution cfg)
                  (vec_y incidentVelocity - 2 * dotProduct * vec_y n * restitution cfg))"

definition resolveCollision :: "draws \<Rightarrow> HexagonEdge \<Rightarrow> real \<Rightarrow> PhysicsEngine \<Rightarrow> PhysicsEngine" where
  "resolveCollision rnd edge depth s =
     (let b = ballState s;
          separationVector = multiply (normal edge) depth;
          p = add (position b) separationVector;
          v = reflectedVelocity (config s) edge (velocity b);
          v' = (if \<bar>vec_x v\<bar> < 10 \<and> \<bar>vec_y v\<bar> < 10
                then Vector2D (vec_x v + (fst rnd - 0.5) * 50) (vec_y v + (snd rnd - 0.5) * 50)
                else v)
      in s\<lparr>ballState := b\<lparr>position := p, velocity := v'\<rparr>\<rparr>)"

definition handleCollisions :: "draws \<Rightarrow> PhysicsEngine \<Rightarrow> PhysicsEngine" where
  "handleCollisions rnd s =
     (let collision = circleHexagonCollision (position (ballState s)) (ballRadius (config s))
                        (hexagon s)
      in case (isColliding collision, collisionEdge collision, collisionPoint collision) of
           (True, Some edge, Some _) \<Rightarrow>
             resolveCollision rnd edge
               (case penetrationDepth collision of None \<Rightarrow> 0 | Some d \<Rightarrow> d) s
         | _ \<Rightarrow> s)"

definition updateHexagonRotation :: "real \<Rightarrow> PhysicsEngine \<Rightarrow> PhysicsEngine" where
  "updateHexagonRotation deltaTime s =
     s\<lparr>hexagon := rotateHexagon (hexagon s) (rotationSpeed (config s) * deltaTime)\<rparr>"

definition update :: "draws \<Rightarrow> real \<Rightarrow> PhysicsEngine \<Rightarrow> PhysicsEngine" where
  "update rnd deltaTime s =
     (if \<not> isRunning s then s
      else
        (let dt = min deltaTime 0.016 in
         updateHexagonRotation dt
           (handleCollisions rnd
             (updatePosition dt
               (limitVelocity
                 (updateVelocity dt
                   (applyFriction dt
                     (applyGravity s))))))))"

definition start :: "PhysicsEngine \<Rightarrow> PhysicsEngine" where
  "start s = s\<lparr>isRunning := True\<rparr>"

definition stop :: "PhysicsEngine \<Rightarrow> PhysicsEngine" where
  "stop s = s\<lparr>isRunning := False\<rparr>"

definition reset :: "draws \<Rightarrow> PhysicsEngine \<Rightarrow> PhysicsEngine" where
  "reset rnd s =
     s\<lparr>ballState := (ballState s)
         \<lparr>position := Vector2D (vec_x (center (hexagon s))) (vec_y (center (hexagon s))),
          velocity := randomVelocity rnd,
          acceleration := Vector2D 0 0\<rparr>\<rparr>"

text \<open>\<open>Partial<PhysicsConfig>\<close>: every field may be absent.\<close>

record PartialConfig =
  p_gravity :: "real option"
  p_friction :: "real option"
  p_restitution :: "real option"
  p_rotationSpeed :: "real option"
  p_ballRadius :: "real option"
  p_maxVelocity :: "real option"

definition updateConfig :: "PartialConfig \<Rightarrow> PhysicsEngine \<Rightarrow> PhysicsEngine" where
  "updateConfig newConfig s =
     (let c = config s in
      s\<lparr>config :=
         \<lparr>gravity = case_option (gravity c) id (p_gravity newConfig),
          friction = case_option (friction c) id (p_friction newConfig),
          restitution = case_option (restitution c) id (p_restitution newConfig),
          rotationSpeed = case_option (rotationSpeed c) id (p_rotationSpeed newConfig),
          ballRadius = case_option (ballRadius c) id (p_ballRadius newConfig),
          maxVelocity = case_option (maxVelocity c) id (p_maxVelocity newConfig)\<rparr>\<rparr>)"

definition setBallPosition :: "Vector2D \<Rightarrow> PhysicsEngine \<Rightarrow> PhysicsEngine" where
  "setBallPosition p s = s\<lparr>ballState := (ballState s)\<lparr>position := p\<rparr>\<rparr>"

definition setBallVelocity :: "Vector2D \<Rightarrow> PhysicsEngine \<Rightarrow> PhysicsEngine" where
  "setBallVelocity v s = s\<lparr>ballState := (ballState s)\<lparr>velocity := v\<rparr>\<rparr>"

text \<open>The mutating methods of the class, as one call.\<close>

datatype mutator =
  Update draws real | Start | Stop | Reset draws | UpdateConfig PartialConfig
  | SetBallPosition Vector2D | SetBallVelocity Vector2D

fun call :: "mutator \<Rightarrow> PhysicsEngine \<Rightarrow> PhysicsEngine" where
  "call (Update rnd deltaTime) s = update rnd deltaTime s"
| "call Start s = start s"
| "call Stop s = stop s"
| "call (Reset rnd) s = reset rnd s"
| "call (UpdateConfig newConfig) s = updateConfig newConfig s"
| "call (SetBallPosition p) s = setBallPosition p s"
| "call (SetBallVelocity v) s = setBallVelocity v s"

section \<open>The engine as the component sets it up\<close>

text \<open>
  \<open>BouncingBall\<close> builds its engine from the default configuration and a hexagon of
  radius 200 around the centre of an 800 by 600 canvas, with no rotation.
\<close>

definition appConfig :: PhysicsConfig where
  "appConfig = \<lparr>gravity = 500, friction = 0.02, restitution = 0.8, rotationSpeed = 1,
                 ballRadius = 12, maxVelocity = 800\<rparr>"

definition appHexagon :: Hexagon where
  "appHexagon = createHexagon (Vector2D 400 300) 200 0"

text \<open>The same with the gravity and friction sliders at zero.\<close>

definition freeConfig :: PhysicsConfig where
  "freeConfig = appConfig\<lparr>gravity := 0, friction := 0\<rparr>"

text \<open>A running engine with the ball at the centre of the hexagon, at the given velocity.\<close>

definition runningAt :: "PhysicsConfig \<Rightarrow> Vector2D \<Rightarrow> PhysicsEngine" where
  "runningAt cfg v =
     \<lparr>config = cfg,
      ballState = \<lparr>position = Vector2D 400 300, velocity = v, acceleration = Vector2D 0 0\<rparr>,
      hexagon = appHexagon,
      isRunning = True\<rparr>"

section \<open>Facts about vectors\<close>

lemma magnitude_multiply: "magnitude (multiply v t) = \<bar>t\<bar> * magnitude v"
proof -
  have "(vec_x v * t) * (vec_x v * t) + (vec_y v * t) * (vec_y v * t)
        = (t * t) * (vec_x v * vec_x v + vec_y v * vec_y v)"
    by (simp only: algebra_simps)
  then have "magnitude (multiply v t) = sqrt ((t * t) * (vec_x v * vec_x v + vec_y v * vec_y v))"
    by (simp only: magnitude_def multiply_def Vector2D.sel)
  also have "\<dots> = sqrt (t * t) * sqrt (vec_x v * vec_x v + vec_y v * vec_y v)"
    by (rule real_sqrt_mult)
  also have "\<dots> = \<bar>t\<bar> * magnitude v"
    by (simp only: real_sqrt_abs2 magnitude_def)
  finally show ?thesis .
qed

lemma distance_add_multiply: "distance c (add c (multiply v t)) = \<bar>t\<bar> * magnitude v"
proof -
  have "(vec_x c - (vec_x c + vec_x v * t)) * (vec_x c - (vec_x c + vec_x v * t))
        + (vec_y c - (vec_y c + vec_y v * t)) * (vec_y c - (vec_y c + vec_y v * t))
      = (vec_x v * t) * (vec_x v * t) + (vec_y v * t) * (vec_y v * t)"
    by (simp add: algebra_simps)
  then have "distance c (add c (multiply v t)) = magnitude (multiply v t)"
    by (simp only: distance_def Let_def add_def multiply_def magnitude_def Vector2D.sel)
  then show ?thesis by (simp only: magnitude_multiply)
qed

lemma add_multiply_zero: "add p (multiply v 0) = p"
  by (simp add: add_def multiply_def)

lemma distance_triangle: "distance p r \<le> distance p q + distance q r"
proof -
  have "sqrt ((vec_x p - vec_x q + (vec_x q - vec_x r))\<^sup>2 + (vec_y p - vec_y q + (vec_y q - vec_y r))\<^sup>2)
        \<le> sqrt ((vec_x p - vec_x q)\<^sup>2 + (vec_y p - vec_y q)\<^sup>2)
          + sqrt ((vec_x q - vec_x r)\<^sup>2 + (vec_y q - vec_y r)\<^sup>2)"
    by (rule real_sqrt_sum_squares_triangle_ineq)
  then show ?thesis by (simp add: distance_def Let_def power2_eq_square)
qed

lemma clamp_magnitude:
  assumes "magnitude w > m" "0 \<le> m"
  shows "magnitude (multiply w (m / magnitude w)) = m"
proof -
  let ?k = "m / magnitude w"
  have pos: "0 < magnitude w" using assms by simp
  then have k: "0 \<le> ?k" using assms(2) by simp
  have "(vec_x w * ?k) * (vec_x w * ?k) + (vec_y w * ?k) * (vec_y w * ?k)
        = (?k * ?k) * (vec_x w * vec_x w + vec_y w * vec_y w)"
    by (simp only: algebra_simps)
  then have "magnitude (multiply w ?k) = sqrt ((?k * ?k) * (vec_x w * vec_x w + vec_y w * vec_y w))"
    by (simp only: magnitude_def multiply_def Vector2D.sel)
  also have "\<dots> = sqrt (?k * ?k) * magnitude w"
    by (simp only: real_sqrt_mult magnitude_def)
  also have "sqrt (?k * ?k) = ?k" using k by (simp only: real_sqrt_abs2 abs_of_nonneg)
  also have "?k * magnitude w = m" using pos by simp
  finally show ?thesis .
qed

lemma magnitude_3_4: "magnitude (Vector2D 3 4) = 5"
proof -
  have "(3::real) * 3 + 4 * 4 = 5 * 5" by simp
  then have "magnitude (Vector2D 3 4) = sqrt (5 * 5)"
    by (simp only: magnitude_def Vector2D.sel)
  also have "\<dots> = 5" by (simp only: real_sqrt_abs2 abs_numeral)
  finally show ?thesis .
qed

lemma magnitude_0_100: "magnitude (Vector2D 0 100) = 100"
proof -
  have "(0::real) * 0 + 100 * 100 = 100 * 100" by simp
  then have "magnitude (Vector2D 0 100) = sqrt (100 * 100)"
    by (simp only: magnitude_def Vector2D.sel)
  also have "\<dots> = 100" by (simp only: real_sqrt_abs2 abs_numeral)
  finally show ?thesis .
qed

lemma sqrt3_bounds: "1 < sqrt 3" "sqrt 3 < 2"
proof -
  show "1 < sqrt 3" by simp
  have "(3::real) < 4" by simp
  then have "sqrt 3 < sqrt 4" by (simp only: real_sqrt_less_iff)
  then show "sqrt 3 < 2" by simp
qed

section \<open>The distance to a segment\<close>

lemma distanceToEdge_distance:
  "res_distance (distanceToEdge p a b) = distance p (closestPoint (distanceToEdge p a b))"
  by (simp add: distanceToEdge_def Let_def)

lemma distanceToEdge_degenerate:
  "distanceToEdge p a a = \<lparr>res_distance = distance p a, closestPoint = a, isOnSegment = True\<rparr>"
  by (simp add: distanceToEdge_def Let_def subtract_def magnitudeSquared_def)

lemma closestPoint_clamped:
  assumes "magnitudeSquared (subtract b a) \<noteq> 0"
  shows "closestPoint (distanceToEdge p a b) =
         add a (multiply (subtract b a)
           (max 0 (min 1 (dot (subtract p a) (subtract b a) / magnitudeSquared (subtract b a)))))"
  using assms by (simp add: distanceToEdge_def Let_def)

lemma closestPoint_param:
  "\<exists>t. 0 \<le> t \<and> t \<le> 1 \<and>
       closestPoint (distanceToEdge p a b) = add a (multiply (subtract b a) t)"
proof (cases "magnitudeSquared (subtract b a) = 0")
  case True
  then have "closestPoint (distanceToEdge p a b) = add a (multiply (subtract b a) 0)"
    by (simp add: distanceToEdge_def Let_def add_def multiply_def)
  then show ?thesis by (intro exI [of _ 0]) simp
next
  case False
  let ?t = "max 0 (min 1 (dot (subtract p a) (subtract b a) / magnitudeSquared (subtract b a)))"
  have "closestPoint (distanceToEdge p a b) = add a (multiply (subtract b a) ?t)"
    using False by (simp add: distanceToEdge_def Let_def)
  moreover have "0 \<le> ?t" "?t \<le> 1" by simp_all
  ultimately show ?thesis by blast
qed

lemma isOnSegment_always: "isOnSegment (distanceToEdge p a b)"
  by (simp add: distanceToEdge_def Let_def)

text \<open>
  Claim C3, at an input where it fails. The point \<open>(2, 0)\<close> projects onto the line through
  \<open>(0, 0)\<close> and \<open>(1, 0)\<close> at parameter 2, outside the segment; \<open>distanceToEdge\<close> returns
  the clamped closest point \<open>(1, 0)\<close> and the distance 1 to it, and the flag
  \<open>isOnSegment\<close> is true all the same, because the code tests the parameter after
  clamping it.
\<close>

theorem distanceToEdge_flag_after_clamp:
  "dot (subtract (Vector2D 2 0) (Vector2D 0 0)) (subtract (Vector2D 1 0) (Vector2D 0 0))
     / magnitudeSquared (subtract (Vector2D 1 0) (Vector2D 0 0)) = 2
   \<and> distanceToEdge (Vector2D 2 0) (Vector2D 0 0) (Vector2D 1 0)
       = \<lparr>res_distance = 1, closestPoint = Vector2D 1 0, isOnSegment = True\<rparr>"
  by (simp add: distanceToEdge_def Let_def subtract_def dot_def magnitudeSquared_def add_def
      multiply_def distance_def)

section \<open>The hexagon\<close>

lemma cos_third: "cos (a + pi / 3) = cos a / 2 - sin a * sqrt 3 / 2"
  by (simp add: cos_add cos_60 sin_60)

lemma sin_third: "sin (a + pi / 3) = sin a / 2 + cos a * sqrt 3 / 2"
  by (simp add: sin_add cos_60 sin_60)

lemma hexVertex_next:
  assumes "i < 6"
  shows "hexVertex c r rot ((i + 1) mod 6)
         = Vector2D (vec_x c + r * cos ((real i * pi) / 3 + rot + pi / 3))
                    (vec_y c + r * sin ((real i * pi) / 3 + rot + pi / 3))"
proof (cases "i = 5")
  case True
  have "(5 * pi) / 3 + rot + pi / 3 = rot + 2 * pi" by simp
  then show ?thesis using True by (simp add: hexVertex_def add.commute)
next
  case False
  with assms have e1: "(i + 1) mod 6 = i + 1" by simp
  have e2: "(real (i + 1) * pi) / 3 + rot = (real i * pi) / 3 + rot + pi / 3"
    by (simp add: field_simps)
  show ?thesis by (simp only: hexVertex_def Let_def e1 e2)
qed

lemma createHexagon_vertices:
  "vertices (createHexagon c r rot) = map (hexVertex c r rot) [0..<6]"
  by (simp add: createHexagon_def Let_def)

lemma createHexagon_edges:
  "edges (createHexagon c r rot) = map (hexEdge (map (hexVertex c r rot) [0..<6])) [0..<6]"
  by (simp add: createHexagon_def Let_def)

lemma createHexagon_edges_length: "length (edges (createHexagon c r rot)) = 6"
  by (simp add: createHexagon_edges)

lemma createHexagon_edges_nonempty: "edges (createHexagon c r rot) \<noteq> []"
  using createHexagon_edges_length [of c r rot] by auto

lemma createHexagon_edge_nth:
  assumes "i < 6"
  shows "edges (createHexagon c r rot) ! i =
    \<lparr>e_start = hexVertex c r rot i,
     e_end = hexVertex c r rot ((i + 1) mod 6),
     normal = normalize (Vector2D
        (- vec_y (subtract (hexVertex c r rot ((i + 1) mod 6)) (hexVertex c r rot i)))
        (vec_x (subtract (hexVertex c r rot ((i + 1) mod 6)) (hexVertex c r rot i))))\<rparr>"
proof -
  have "(i + 1) mod 6 < 6" by simp
  then show ?thesis using assms
    by (simp add: createHexagon_edges hexEdge_def Let_def del: upt_Suc)
qed

lemma createHexagon_edge_cases:
  assumes "e \<in> set (edges (createHexagon c r rot))"
  obtains i where "i < 6" "e = edges (createHexagon c r rot) ! i"
  using assms createHexagon_edges_length [of c r rot] by (metis in_set_conv_nth)

lemma createHexagon_vertex_nth:
  assumes "k < 6"
  shows "vertices (createHexagon c r rot) ! k = hexVertex c r rot k"
  using assms by (simp add: createHexagon_vertices del: upt_Suc)

lemma hexVertex_distance:
  assumes "0 < r"
  shows "distance (hexVertex c r rot k) c = r"
proof -
  let ?a = "(real k * pi) / 3 + rot"
  have cs: "cos ?a * cos ?a + sin ?a * sin ?a = 1"
    using sin_cos_squared_add2 [of ?a] by (simp only: power2_eq_square)
  have "(r * cos ?a) * (r * cos ?a) + (r * sin ?a) * (r * sin ?a)
        = (r * r) * (cos ?a * cos ?a + sin ?a * sin ?a)"
    by (simp only: algebra_simps)
  also have "\<dots> = r * r" by (simp only: cs mult_1_right)
  finally have "sqrt ((r * cos ?a) * (r * cos ?a) + (r * sin ?a) * (r * sin ?a)) = r"
    using assms by (simp only: real_sqrt_abs2 abs_of_pos)
  then show ?thesis by (simp add: distance_def hexVertex_def Let_def)
qed

text \<open>
  Algebra of one edge, from the vertex at angle \<open>a\<close> to the next one: \<open>C\<close> and \<open>S\<close> are
  the cosine and sine of \<open>a\<close>, and \<open>q\<close> is \<open>sqrt 3\<close>.
\<close>

lemma alg_edge_len:
  fixes C S q r :: real
  assumes cs: "C * C + S * S = 1" and q: "q * q = 3"
  shows "(r * (C / 2 - S * q / 2) - r * C) * (r * (C / 2 - S * q / 2) - r * C)
       + (r * (S / 2 + C * q / 2) - r * S) * (r * (S / 2 + C * q / 2) - r * S) = r * r"
proof -
  have "(r * (C / 2 - S * q / 2) - r * C) * (r * (C / 2 - S * q / 2) - r * C)
       + (r * (S / 2 + C * q / 2) - r * S) * (r * (S / 2 + C * q / 2) - r * S)
      = r * r * ((C * C + S * S) / 4 + (C * C + S * S) * (q * q) / 4)"
    by (simp add: field_simps)
  also have "\<dots> = r * r" unfolding cs q by simp
  finally show ?thesis .
qed

lemma normalize_edge_perp:
  fixes C S q r :: real
  assumes cs: "C * C + S * S = 1" and q: "q * q = 3" and r: "0 < r"
  shows "normalize (Vector2D (- (r * (S / 2 + C * q / 2) - r * S)) (r * (C / 2 - S * q / 2) - r * C))
         = Vector2D (S / 2 - C * q / 2) (- C / 2 - S * q / 2)"
proof -
  let ?ex = "r * (C / 2 - S * q / 2) - r * C"
  let ?ey = "r * (S / 2 + C * q / 2) - r * S"
  have "(- ?ey) * (- ?ey) + ?ex * ?ex = r * r"
    using alg_edge_len [OF cs q, of r] by (simp add: algebra_simps)
  then have m: "magnitude (Vector2D (- ?ey) ?ex) = r"
    using r by (simp add: magnitude_def)
  have "divide_v (Vector2D (- ?ey) ?ex) r = Vector2D (S / 2 - C * q / 2) (- C / 2 - S * q / 2)"
    using r by (simp add: divide_v_def field_simps)
  with m r show ?thesis by (simp add: normalize_def Let_def)
qed

lemma hexagon_edge_shape:
  assumes r: "0 < r" and i: "i < 6"
    and a_def: "a = (real i * pi) / 3 + rot"
  shows "edges (createHexagon c r rot) ! i =
    \<lparr>e_start = Vector2D (vec_x c + r * cos a) (vec_y c + r * sin a),
     e_end = Vector2D (vec_x c + r * (cos a / 2 - sin a * sqrt 3 / 2))
                      (vec_y c + r * (sin a / 2 + cos a * sqrt 3 / 2)),
     normal = Vector2D (sin a / 2 - cos a * sqrt 3 / 2) (- cos a / 2 - sin a * sqrt 3 / 2)\<rparr>"
proof -
  have cs: "cos a * cos a + sin a * sin a = 1"
    using sin_cos_squared_add2 [of a] by (simp add: power2_eq_square)
  have q: "sqrt 3 * sqrt 3 = (3::real)" by simp
  have s: "hexVertex c r rot i = Vector2D (vec_x c + r * cos a) (vec_y c + r * sin a)"
    by (simp add: hexVertex_def a_def Let_def)
  have e: "hexVertex c r rot ((i + 1) mod 6)
           = Vector2D (vec_x c + r * (cos a / 2 - sin a * sqrt 3 / 2))
                      (vec_y c + r * (sin a / 2 + cos a * sqrt 3 / 2))"
    unfolding hexVertex_next [OF i] a_def [symmetric] cos_third sin_third ..
  have n: "normalize (Vector2D
        (- vec_y (subtract (Vector2D (vec_x c + r * (cos a / 2 - sin a * sqrt 3 / 2))
                      (vec_y c + r * (sin a / 2 + cos a * sqrt 3 / 2)))
                   (Vector2D (vec_x c + r * cos a) (vec_y c + r * sin a))))
        (vec_x (subtract (Vector2D (vec_x c + r * (cos a / 2 - sin a * sqrt 3 / 2))
                      (vec_y c + r * (sin a / 2 + cos a * sqrt 3 / 2)))
                   (Vector2D (vec_x c + r * cos a) (vec_y c + r * sin a)))))
      = Vector2D (sin a / 2 - cos a * sqrt 3 / 2) (- cos a / 2 - sin a * sqrt 3 / 2)"
    using normalize_edge_perp [OF cs q r] by (simp add: subtract_def)
  show ?thesis by (simp only: createHexagon_edge_nth [OF i] s e n)
qed

lemma alg_normal_unit:
  fixes C S q :: real
  assumes cs: "C * C + S * S = 1" and q: "q * q = 3"
  shows "(S / 2 - C * q / 2) * (S / 2 - C * q / 2) + (- C / 2 - S * q / 2) * (- C / 2 - S * q / 2) = 1"
proof -
  have "4 * ((S / 2 - C * q / 2) * (S / 2 - C * q / 2) + (- C / 2 - S * q / 2) * (- C / 2 - S * q / 2))
        = (S - C * q) * (S - C * q) + (C + S * q) * (C + S * q)"
    by (simp add: field_simps)
  also have "\<dots> = 4" using cs q by algebra
  finally show ?thesis by simp
qed

lemma alg_normal_perp:
  fixes C S q r :: real
  shows "(S / 2 - C * q / 2) * (r * (C / 2 - S * q / 2) - r * C)
       + (- C / 2 - S * q / 2) * (r * (S / 2 + C * q / 2) - r * S) = 0"
  by (simp add: field_simps)

lemma alg_normal_inward:
  fixes C S q r cx cy :: real
  assumes cs: "C * C + S * S = 1" and q: "q * q = 3"
  shows "(S / 2 - C * q / 2) * (cx - ((cx + r * C) + (cx + r * (C / 2 - S * q / 2))) / 2)
       + (- C / 2 - S * q / 2) * (cy - ((cy + r * S) + (cy + r * (S / 2 + C * q / 2))) / 2)
       = r * q / 2"
proof -
  have "8 * ((S / 2 - C * q / 2) * (cx - ((cx + r * C) + (cx + r * (C / 2 - S * q / 2))) / 2)
       + (- C / 2 - S * q / 2) * (cy - ((cy + r * S) + (cy + r * (S / 2 + C * q / 2))) / 2))
       = r * ((C * q - S) * (3 * C - S * q) + (C + S * q) * (3 * S + C * q))"
    by (simp add: field_simps)
  also have "\<dots> = r * (4 * q)" using cs q by algebra
  finally show ?thesis by simp
qed

lemma alg_projection:
  fixes C S q r cx cy :: real
  assumes cs: "C * C + S * S = 1" and q: "q * q = 3"
  shows "(cx - (cx + r * C)) * (r * (C / 2 - S * q / 2) - r * C)
       + (cy - (cy + r * S)) * (r * (S / 2 + C * q / 2) - r * S) = r * r / 2"
proof -
  have "2 * ((cx - (cx + r * C)) * (r * (C / 2 - S * q / 2) - r * C)
       + (cy - (cy + r * S)) * (r * (S / 2 + C * q / 2) - r * S))
      = r * r * (C * (C + S * q) + S * (S - C * q))"
    by (simp add: field_simps)
  also have "\<dots> = r * r" using cs by algebra
  finally show ?thesis by simp
qed

text \<open>The squared distance from the centre to the point of parameter t on the edge's line.\<close>

lemma alg_line_dist:
  fixes C S q r cx cy t :: real
  assumes cs: "C * C + S * S = 1" and q: "q * q = 3"
  shows "(cx - ((cx + r * C) + (r * (C / 2 - S * q / 2) - r * C) * t))
         * (cx - ((cx + r * C) + (r * (C / 2 - S * q / 2) - r * C) * t))
       + (cy - ((cy + r * S) + (r * (S / 2 + C * q / 2) - r * S) * t))
         * (cy - ((cy + r * S) + (r * (S / 2 + C * q / 2) - r * S) * t))
       = (r * q / 2) * (r * q / 2) + (r * (t - 1 / 2)) * (r * (t - 1 / 2))"
proof -
  have "4 * ((cx - ((cx + r * C) + (r * (C / 2 - S * q / 2) - r * C) * t))
         * (cx - ((cx + r * C) + (r * (C / 2 - S * q / 2) - r * C) * t))
       + (cy - ((cy + r * S) + (r * (S / 2 + C * q / 2) - r * S) * t))
         * (cy - ((cy + r * S) + (r * (S / 2 + C * q / 2) - r * S) * t)))
      = r * r * ((2 * C - (C + S * q) * t) * (2 * C - (C + S * q) * t)
               + (2 * S - (S - C * q) * t) * (2 * S - (S - C * q) * t))"
    by (simp add: field_simps)
  also have "\<dots> = r * r * (q * q + (2 * t - 1) * (2 * t - 1))" using cs q by algebra
  also have "\<dots> = 4 * ((r * q / 2) * (r * q / 2) + (r * (t - 1 / 2)) * (r * (t - 1 / 2)))"
    by (simp add: field_simps)
  finally show ?thesis by simp
qed

lemma createHexagon_normal_unit:
  assumes r: "0 < r" and e: "e \<in> set (edges (createHexagon c r rot))"
  shows "vec_x (normal e) * vec_x (normal e) + vec_y (normal e) * vec_y (normal e) = 1"
proof -
  from e obtain i where i: "i < 6" "e = edges (createHexagon c r rot) ! i"
    by (rule createHexagon_edge_cases)
  define a where "a = (real i * pi) / 3 + rot"
  have cs: "cos a * cos a + sin a * sin a = 1"
    using sin_cos_squared_add2 [of a] by (simp add: power2_eq_square)
  have q: "sqrt 3 * sqrt 3 = (3::real)" by simp
  show ?thesis
    unfolding i(2) hexagon_edge_shape [OF r i(1) a_def, of c]
    by (simp only: Vector2D.sel HexagonEdge.simps alg_normal_unit [OF cs q])
qed

text \<open>The first edge of the component's hexagon and its normal.\<close>

lemma appHexagon_edge0:
  "edges appHexagon ! 0 \<in> set (edges appHexagon)"
  "normal (edges appHexagon ! 0) = Vector2D (- (sqrt 3 / 2)) (- (1 / 2))"
proof -
  have "0 < length (edges appHexagon)"
    by (simp add: appHexagon_def createHexagon_edges_length)
  then show "edges appHexagon ! 0 \<in> set (edges appHexagon)" by (rule nth_mem)
  have r: "(0::real) < 200" by simp
  have i: "(0::nat) < 6" by simp
  have a: "(0::real) = (real 0 * pi) / 3 + 0" by simp
  show "normal (edges appHexagon ! 0) = Vector2D (- (sqrt 3 / 2)) (- (1 / 2))"
    unfolding appHexagon_def hexagon_edge_shape [OF r i a] by simp
qed

text \<open>
  Claim C4. For a positive radius \<open>r\<close>, \<open>createHexagon c r rot\<close> has exactly six vertices
  and six edges. Vertex \<open>k\<close> lies at angle \<open>rot + k * 60\<close> degrees on the circle of radius
  \<open>r\<close> around \<open>c\<close>, so at distance \<open>r\<close> from \<open>c\<close>. Edge \<open>i\<close> runs from
  vertex \<open>i\<close> to vertex \<open>(i + 1) mod 6\<close>; its normal has length one, is perpendicular to
  the edge, and has a positive dot product with the vector from the edge's midpoint to
  \<open>c\<close>.
\<close>

theorem createHexagon_regular:
  assumes r: "0 < r"
  shows "length (vertices (createHexagon c r rot)) = 6
    \<and> length (edges (createHexagon c r rot)) = 6
    \<and> (\<forall>k<6. vertices (createHexagon c r rot) ! k
                 = Vector2D (vec_x c + r * cos (rot + real k * (pi / 3)))
                            (vec_y c + r * sin (rot + real k * (pi / 3)))
              \<and> distance (vertices (createHexagon c r rot) ! k) c = r)
    \<and> (\<forall>i<6. e_start (edges (createHexagon c r rot) ! i) = vertices (createHexagon c r rot) ! i
              \<and> e_end (edges (createHexagon c r rot) ! i)
                 = vertices (createHexagon c r rot) ! ((i + 1) mod 6)
              \<and> magnitude (normal (edges (createHexagon c r rot) ! i)) = 1
              \<and> dot (normal (edges (createHexagon c r rot) ! i))
                    (subtract (e_end (edges (createHexagon c r rot) ! i))
                              (e_start (edges (createHexagon c r rot) ! i))) = 0
              \<and> 0 < dot (normal (edges (createHexagon c r rot) ! i))
                        (subtract c (divide_v (add (e_start (edges (createHexagon c r rot) ! i))
                                                   (e_end (edges (createHexagon c r rot) ! i))) 2)))"
proof (intro conjI allI impI)
  show "length (vertices (createHexagon c r rot)) = 6" by (simp add: createHexagon_vertices)
  show "length (edges (createHexagon c r rot)) = 6" by (rule createHexagon_edges_length)
next
  fix k :: nat assume k: "k < 6"
  have "(real k * pi) / 3 + rot = rot + real k * (pi / 3)" by simp
  then show "vertices (createHexagon c r rot) ! k
          = Vector2D (vec_x c + r * cos (rot + real k * (pi / 3)))
                     (vec_y c + r * sin (rot + real k * (pi / 3)))"
    by (simp only: createHexagon_vertex_nth [OF k] hexVertex_def Let_def)
  show "distance (vertices (createHexagon c r rot) ! k) c = r"
    unfolding createHexagon_vertex_nth [OF k] using r by (rule hexVertex_distance)
next
  fix i :: nat assume i: "i < 6"
  let ?e = "edges (createHexagon c r rot) ! i"
  define a where "a = (real i * pi) / 3 + rot"
  have cs: "cos a * cos a + sin a * sin a = 1"
    using sin_cos_squared_add2 [of a] by (simp add: power2_eq_square)
  have q: "sqrt 3 * sqrt 3 = (3::real)" by simp
  note sh = hexagon_edge_shape [OF r i a_def, of c]
  have i': "(i + 1) mod 6 < 6" by simp
  show "e_start ?e = vertices (createHexagon c r rot) ! i"
    by (simp add: createHexagon_edge_nth [OF i] createHexagon_vertex_nth [OF i])
  show "e_end ?e = vertices (createHexagon c r rot) ! ((i + 1) mod 6)"
    by (simp only: createHexagon_edge_nth [OF i] createHexagon_vertex_nth [OF i']
        HexagonEdge.simps)
  show "magnitude (normal ?e) = 1"
    unfolding sh
    by (simp only: magnitude_def Vector2D.sel HexagonEdge.simps alg_normal_unit [OF cs q]
        real_sqrt_one)
  show "dot (normal ?e) (subtract (e_end ?e) (e_start ?e)) = 0"
    unfolding sh
    by (simp only: dot_def subtract_def Vector2D.sel HexagonEdge.simps add_diff_cancel_left
        alg_normal_perp)
  have "dot (normal ?e) (subtract c (divide_v (add (e_start ?e) (e_end ?e)) 2)) = r * sqrt 3 / 2"
    unfolding sh
    by (simp only: dot_def subtract_def add_def divide_v_def Vector2D.sel HexagonEdge.simps
        alg_normal_inward [OF cs q])
  moreover have "0 < r * sqrt 3 / 2" using r by simp
  ultimately show "0 < dot (normal ?e) (subtract c (divide_v (add (e_start ?e) (e_end ?e)) 2))"
    by (simp only:)
qed

theorem createHexagon_regular_witness:
  "(0::real) < 200
   \<and> length (vertices appHexagon) = 6 \<and> length (edges appHexagon) = 6
   \<and> distance (vertices appHexagon ! 0) (Vector2D 400 300) = 200
   \<and> e_start (edges appHexagon ! 0) = vertices appHexagon ! 0
   \<and> magnitude (normal (edges appHexagon ! 0)) = 1"
proof -
  have r: "(0::real) < 200" by simp
  have z: "(0::nat) < 6" by simp
  show ?thesis
    using r z createHexagon_regular [OF r, of "Vector2D 400 300" 0]
    unfolding appHexagon_def by blast
qed

section \<open>The collision query\<close>

text \<open>The scan of the edges.\<close>

lemma scanEdges_Some:
  "\<exists>e d cp. scanEdges p es (Some (e0, d0, c0)) = Some (e, d, cp)
     \<and> d \<le> d0 \<and> (\<forall>x\<in>set es. d \<le> edgeDist p x)
     \<and> ((e, d, cp) = (e0, d0, c0) \<or> (e \<in> set es \<and> d = edgeDist p e \<and> cp = edgePoint p e))"
proof (induction es arbitrary: e0 d0 c0)
  case Nil
  then show ?case by simp
next
  case (Cons x xs)
  show ?case
  proof (cases "edgeDist p x < d0")
    case True
    from Cons.IH [of x "edgeDist p x" "edgePoint p x"]
    obtain e d cp where
      "scanEdges p xs (Some (x, edgeDist p x, edgePoint p x)) = Some (e, d, cp)"
      "d \<le> edgeDist p x" "\<forall>y\<in>set xs. d \<le> edgeDist p y"
      "(e, d, cp) = (x, edgeDist p x, edgePoint p x) \<or> (e \<in> set xs \<and> d = edgeDist p e \<and> cp = edgePoint p e)"
      by blast
    with True show ?thesis
      by (intro exI [of _ e] exI [of _ d] exI [of _ cp]) (auto simp: belowClosest_def Let_def)
  next
    case False
    from Cons.IH [of e0 d0 c0]
    obtain e d cp where
      "scanEdges p xs (Some (e0, d0, c0)) = Some (e, d, cp)"
      "d \<le> d0" "\<forall>y\<in>set xs. d \<le> edgeDist p y"
      "(e, d, cp) = (e0, d0, c0) \<or> (e \<in> set xs \<and> d = edgeDist p e \<and> cp = edgePoint p e)"
      by blast
    with False show ?thesis
      by (intro exI [of _ e] exI [of _ d] exI [of _ cp]) (auto simp: belowClosest_def Let_def)
  qed
qed

lemma scanEdges_None:
  assumes "es \<noteq> []"
  shows "\<exists>e\<in>set es. scanEdges p es None = Some (e, edgeDist p e, edgePoint p e)
           \<and> (\<forall>x\<in>set es. edgeDist p e \<le> edgeDist p x)"
proof -
  from assms obtain x xs where es: "es = x # xs" by (cases es) auto
  from scanEdges_Some [of p xs x "edgeDist p x" "edgePoint p x"]
  obtain e d cp where
    "scanEdges p xs (Some (x, edgeDist p x, edgePoint p x)) = Some (e, d, cp)"
    "d \<le> edgeDist p x" "\<forall>y\<in>set xs. d \<le> edgeDist p y"
    "(e, d, cp) = (x, edgeDist p x, edgePoint p x) \<or> (e \<in> set xs \<and> d = edgeDist p e \<and> cp = edgePoint p e)"
    by blast
  then show ?thesis unfolding es
    by (intro bexI [of _ e]) (auto simp: belowClosest_def Let_def)
qed

text \<open>Ties go to the earlier edge: the scan replaces its candidate on a strictly smaller distance only.\<close>

lemma scanEdges_ties:
  assumes "\<forall>x\<in>set es. \<not> edgeDist p x < d0"
  shows "scanEdges p es (Some (e0, d0, c0)) = Some (e0, d0, c0)"
  using assms by (induction es) (simp_all add: belowClosest_def Let_def)

lemma collision_result:
  assumes "es = edges h" "es \<noteq> []"
  shows "\<exists>e\<in>set es. (\<forall>x\<in>set es. edgeDist p e \<le> edgeDist p x) \<and>
     circleHexagonCollision p R h =
       (if edgeDist p e \<le> R
        then \<lparr>isColliding = True, collisionEdge = Some e, collisionPoint = Some (edgePoint p e),
              penetrationDepth = Some (R - edgeDist p e)\<rparr>
        else \<lparr>isColliding = False, collisionEdge = None, collisionPoint = None,
              penetrationDepth = None\<rparr>)"
proof -
  from scanEdges_None [OF assms(2), of p]
  obtain e where e: "e \<in> set es" "scanEdges p es None = Some (e, edgeDist p e, edgePoint p e)"
    "\<forall>x\<in>set es. edgeDist p e \<le> edgeDist p x" by blast
  have "circleHexagonCollision p R h =
       (if edgeDist p e \<le> R
        then \<lparr>isColliding = True, collisionEdge = Some e, collisionPoint = Some (edgePoint p e),
              penetrationDepth = Some (R - edgeDist p e)\<rparr>
        else \<lparr>isColliding = False, collisionEdge = None, collisionPoint = None,
              penetrationDepth = None\<rparr>)"
    using e(2) by (simp add: circleHexagonCollision_def assms(1) [symmetric])
  with e show ?thesis by blast
qed

lemma Min_edgeDist:
  assumes "e \<in> set es" "\<forall>x\<in>set es. edgeDist p e \<le> edgeDist p x"
  shows "Min (edgeDist p ` set es) = edgeDist p e"
proof (rule Min_eqI)
  show "finite (edgeDist p ` set es)" by simp
  show "\<And>y. y \<in> edgeDist p ` set es \<Longrightarrow> edgeDist p e \<le> y" using assms(2) by auto
  show "edgeDist p e \<in> edgeDist p ` set es" using assms(1) by simp
qed

lemma no_collision_far:
  assumes "\<forall>e\<in>set (edges h). R < edgeDist p e"
  shows "\<not> isColliding (circleHexagonCollision p R h)"
proof (cases "edges h = []")
  case True
  then show ?thesis by (simp add: circleHexagonCollision_def)
next
  case False
  from collision_result [OF refl False, of p R]
  obtain e where e: "e \<in> set (edges h)"
    and res: "circleHexagonCollision p R h =
       (if edgeDist p e \<le> R
        then \<lparr>isColliding = True, collisionEdge = Some e, collisionPoint = Some (edgePoint p e),
              penetrationDepth = Some (R - edgeDist p e)\<rparr>
        else \<lparr>isColliding = False, collisionEdge = None, collisionPoint = None,
              penetrationDepth = None\<rparr>)"
    by blast
  from assms e have "R < edgeDist p e" by blast
  then show ?thesis by (simp add: res)
qed

text \<open>
  Claim C5. For a hexagon with at least one edge (one built by \<open>createHexagon\<close> has
  six), \<open>circleHexagonCollision\<close> reports a collision exactly when the least of the
  distances from the circle centre to the edges, as \<open>distanceToEdge\<close> computes them, is at
  most the circle radius. When it does, the edge it returns attains that least distance, the
  point it returns is the closest point of that edge, and the penetration depth is the radius
  minus that least distance.
\<close>

theorem circleHexagonCollision_nearest:
  assumes "edges h \<noteq> []"
  shows "(isColliding (circleHexagonCollision p R h) \<longleftrightarrow> Min (edgeDist p ` set (edges h)) \<le> R)
    \<and> (isColliding (circleHexagonCollision p R h) \<longrightarrow>
         (\<exists>e\<in>set (edges h).
            edgeDist p e = Min (edgeDist p ` set (edges h))
            \<and> collisionEdge (circleHexagonCollision p R h) = Some e
            \<and> collisionPoint (circleHexagonCollision p R h) = Some (edgePoint p e)
            \<and> penetrationDepth (circleHexagonCollision p R h)
                = Some (R - Min (edgeDist p ` set (edges h)))))"
proof -
  from collision_result [OF refl assms, of p R]
  obtain e where e: "e \<in> set (edges h)" "\<forall>x\<in>set (edges h). edgeDist p e \<le> edgeDist p x"
    and res: "circleHexagonCollision p R h =
       (if edgeDist p e \<le> R
        then \<lparr>isColliding = True, collisionEdge = Some e, collisionPoint = Some (edgePoint p e),
              penetrationDepth = Some (R - edgeDist p e)\<rparr>
        else \<lparr>isColliding = False, collisionEdge = None, collisionPoint = None,
              penetrationDepth = None\<rparr>)"
    by blast
  have m: "Min (edgeDist p ` set (edges h)) = edgeDist p e"
    using e by (rule Min_edgeDist)
  show ?thesis
  proof (cases "edgeDist p e \<le> R")
    case True
    with res have "circleHexagonCollision p R h =
        \<lparr>isColliding = True, collisionEdge = Some e, collisionPoint = Some (edgePoint p e),
              penetrationDepth = Some (R - edgeDist p e)\<rparr>" by simp
    with True e(1) m show ?thesis by auto
  next
    case False
    with res have "circleHexagonCollision p R h =
        \<lparr>isColliding = False, collisionEdge = None, collisionPoint = None,
              penetrationDepth = None\<rparr>" by simp
    with False m show ?thesis by simp
  qed
qed

theorem circleHexagonCollision_nearest_witness:
  "edges appHexagon \<noteq> []
   \<and> (isColliding (circleHexagonCollision (Vector2D 400 300) 12 appHexagon)
        = (Min (edgeDist (Vector2D 400 300) ` set (edges appHexagon)) \<le> 12))"
proof -
  have h: "edges appHexagon \<noteq> []"
    unfolding appHexagon_def by (rule createHexagon_edges_nonempty)
  show ?thesis
    using h circleHexagonCollision_nearest [OF h, of "Vector2D 400 300" 12] by blast
qed

lemma sqrt_inradius_sq:
  assumes "0 < (r::real)"
  shows "sqrt ((r * sqrt 3 / 2) * (r * sqrt 3 / 2)) = r * sqrt 3 / 2"
proof -
  have "0 \<le> r * sqrt 3 / 2" using assms by simp
  then show ?thesis by (simp only: real_sqrt_abs2 abs_of_nonneg)
qed

text \<open>Every point of the line through an edge is at least the inradius away from the centre.\<close>

lemma edge_line_far:
  assumes r: "0 < r" and e: "e \<in> set (edges (createHexagon c r rot))"
  shows "r * sqrt 3 / 2 \<le> distance c (add (e_start e) (multiply (subtract (e_end e) (e_start e)) t))"
proof -
  from e obtain i where i: "i < 6" "e = edges (createHexagon c r rot) ! i"
    by (rule createHexagon_edge_cases)
  define a where "a = (real i * pi) / 3 + rot"
  have cs: "cos a * cos a + sin a * sin a = 1"
    using sin_cos_squared_add2 [of a] by (simp add: power2_eq_square)
  have q: "sqrt 3 * sqrt 3 = (3::real)" by simp
  note sh = hexagon_edge_shape [OF r i(1) a_def, of c]
  have "distance c (add (e_start e) (multiply (subtract (e_end e) (e_start e)) t))
        = sqrt ((r * sqrt 3 / 2) * (r * sqrt 3 / 2) + (r * (t - 1 / 2)) * (r * (t - 1 / 2)))"
    unfolding i(2) sh
    by (simp only: distance_def Let_def add_def multiply_def subtract_def Vector2D.sel
        HexagonEdge.simps add_diff_cancel_left alg_line_dist [OF cs q])
  also have "\<dots> \<ge> sqrt ((r * sqrt 3 / 2) * (r * sqrt 3 / 2))"
    by (rule real_sqrt_le_mono) simp
  also have "sqrt ((r * sqrt 3 / 2) * (r * sqrt 3 / 2)) = r * sqrt 3 / 2"
    using r by (rule sqrt_inradius_sq)
  finally show ?thesis .
qed

text \<open>The centre is exactly the inradius away from every edge.\<close>

lemma center_edge_distance:
  assumes r: "0 < r" and e: "e \<in> set (edges (createHexagon c r rot))"
  shows "edgeDist c e = r * sqrt 3 / 2"
proof -
  from e obtain i where i: "i < 6" "e = edges (createHexagon c r rot) ! i"
    by (rule createHexagon_edge_cases)
  define a where "a = (real i * pi) / 3 + rot"
  have cs: "cos a * cos a + sin a * sin a = 1"
    using sin_cos_squared_add2 [of a] by (simp add: power2_eq_square)
  have q: "sqrt 3 * sqrt 3 = (3::real)" by simp
  note sh = hexagon_edge_shape [OF r i(1) a_def, of c]
  have len: "magnitudeSquared (subtract (e_end e) (e_start e)) = r * r"
    unfolding i(2) sh
    by (simp only: magnitudeSquared_def subtract_def Vector2D.sel HexagonEdge.simps
        add_diff_cancel_left alg_edge_len [OF cs q])
       
  have prj: "dot (subtract c (e_start e)) (subtract (e_end e) (e_start e)) = r * r / 2"
    unfolding i(2) sh
    by (simp only: dot_def subtract_def Vector2D.sel HexagonEdge.simps
        add_diff_cancel_left alg_projection [OF cs q])
  have nz: "magnitudeSquared (subtract (e_end e) (e_start e)) \<noteq> 0"
    using r len by simp
  have t: "max 0 (min 1 (dot (subtract c (e_start e)) (subtract (e_end e) (e_start e))
              / magnitudeSquared (subtract (e_end e) (e_start e)))) = 1 / 2"
    using r by (simp add: len prj)
  have "edgeDist c e = distance c (add (e_start e) (multiply (subtract (e_end e) (e_start e)) (1 / 2)))"
    unfolding distanceToEdge_distance closestPoint_clamped [OF nz] t ..
  also have "\<dots> = sqrt ((r * sqrt 3 / 2) * (r * sqrt 3 / 2) + (r * (1 / 2 - 1 / 2)) * (r * (1 / 2 - 1 / 2)))"
    unfolding i(2) sh
    by (simp only: distance_def Let_def add_def multiply_def subtract_def Vector2D.sel
        HexagonEdge.simps add_diff_cancel_left alg_line_dist [OF cs q])
  also have "\<dots> = sqrt ((r * sqrt 3 / 2) * (r * sqrt 3 / 2))" by simp
  also have "\<dots> = r * sqrt 3 / 2" using r by (rule sqrt_inradius_sq)
  finally show ?thesis .
qed

lemma collision_at_center:
  assumes r: "0 < r" and R: "r * sqrt 3 / 2 \<le> R"
  shows "circleHexagonCollision c R (createHexagon c r rot) =
     \<lparr>isColliding = True,
      collisionEdge = Some (edges (createHexagon c r rot) ! 0),
      collisionPoint = Some (edgePoint c (edges (createHexagon c r rot) ! 0)),
      penetrationDepth = Some (R - r * sqrt 3 / 2)\<rparr>"
proof -
  let ?h = "createHexagon c r rot"
  obtain e0 rest where es: "edges ?h = e0 # rest"
    using createHexagon_edges_nonempty [of c r rot] by (cases "edges ?h") auto
  then have e0: "edges ?h ! 0 = e0" by simp
  have d: "\<And>x. x \<in> set (edges ?h) \<Longrightarrow> edgeDist c x = r * sqrt 3 / 2"
    using r by (rule center_edge_distance)
  have d0: "edgeDist c e0 = r * sqrt 3 / 2" by (rule d) (simp add: es)
  have "\<forall>x\<in>set rest. \<not> edgeDist c x < edgeDist c e0"
  proof
    fix x assume "x \<in> set rest"
    then have "edgeDist c x = r * sqrt 3 / 2" by (intro d) (simp add: es)
    then show "\<not> edgeDist c x < edgeDist c e0" by (simp only: d0 less_irrefl not_False_eq_True)
  qed
  then have "scanEdges c rest (Some (e0, edgeDist c e0, edgePoint c e0))
             = Some (e0, edgeDist c e0, edgePoint c e0)"
    by (rule scanEdges_ties)
  then have "scanEdges c (edges ?h) None = Some (e0, r * sqrt 3 / 2, edgePoint c e0)"
    by (simp add: es belowClosest_def Let_def d0)
  then show ?thesis using R by (simp add: circleHexagonCollision_def e0)
qed

text \<open>
  Claim C6. For a hexagon built by \<open>createHexagon\<close> with positive radius \<open>r\<close> and a
  circle centred at the hexagon's centre: a circle radius below the inradius
  \<open>r * sqrt 3 / 2\<close> gives no collision; a circle radius above it gives a collision with one
  of the hexagon's edges and a penetration depth that is strictly positive.
\<close>

theorem circleHexagonCollision_inradius:
  assumes r: "0 < r"
  shows "(R < r * sqrt 3 / 2 \<longrightarrow> \<not> isColliding (circleHexagonCollision c R (createHexagon c r rot)))
    \<and> (r * sqrt 3 / 2 < R \<longrightarrow>
         isColliding (circleHexagonCollision c R (createHexagon c r rot))
         \<and> (\<exists>e\<in>set (edges (createHexagon c r rot)).
              collisionEdge (circleHexagonCollision c R (createHexagon c r rot)) = Some e)
         \<and> (\<exists>d. penetrationDepth (circleHexagonCollision c R (createHexagon c r rot)) = Some d
                \<and> 0 < d))"
proof -
  let ?h = "createHexagon c r rot"
  from collision_result [OF refl createHexagon_edges_nonempty, of c r rot c R]
  obtain e where e: "e \<in> set (edges ?h)"
    and res: "circleHexagonCollision c R ?h =
       (if edgeDist c e \<le> R
        then \<lparr>isColliding = True, collisionEdge = Some e, collisionPoint = Some (edgePoint c e),
              penetrationDepth = Some (R - edgeDist c e)\<rparr>
        else \<lparr>isColliding = False, collisionEdge = None, collisionPoint = None,
              penetrationDepth = None\<rparr>)"
    by blast
  have d: "edgeDist c e = r * sqrt 3 / 2" using r e by (rule center_edge_distance)
  show ?thesis
  proof (intro conjI impI)
    assume "R < r * sqrt 3 / 2"
    then show "\<not> isColliding (circleHexagonCollision c R ?h)" by (simp add: res d)
  next
    assume "r * sqrt 3 / 2 < R"
    then show "isColliding (circleHexagonCollision c R ?h)" by (simp add: res d)
  next
    assume "r * sqrt 3 / 2 < R"
    then have "collisionEdge (circleHexagonCollision c R ?h) = Some e" by (simp add: res d)
    with e show "\<exists>e\<in>set (edges ?h). collisionEdge (circleHexagonCollision c R ?h) = Some e"
      by blast
  next
    assume a: "r * sqrt 3 / 2 < R"
    then have "penetrationDepth (circleHexagonCollision c R ?h) = Some (R - r * sqrt 3 / 2)"
      by (simp add: res d)
    with a show "\<exists>d. penetrationDepth (circleHexagonCollision c R ?h) = Some d \<and> 0 < d"
      by simp
  qed
qed

theorem circleHexagonCollision_inradius_witness:
  "(0::real) < 200 \<and> 12 < 200 * sqrt 3 / 2
   \<and> \<not> isColliding (circleHexagonCollision (Vector2D 400 300) 12 appHexagon)
   \<and> 200 * sqrt 3 / 2 < 200
   \<and> isColliding (circleHexagonCollision (Vector2D 400 300) 200 appHexagon)"
proof -
  have r: "(0::real) < 200" by simp
  have lo: "12 < 200 * sqrt 3 / 2" using sqrt3_bounds(1) by linarith
  have hi: "200 * sqrt 3 / 2 < 200" using sqrt3_bounds(2) by linarith
  show ?thesis
    using r lo hi circleHexagonCollision_inradius [OF r, of 12 "Vector2D 400 300" 0]
      circleHexagonCollision_inradius [OF r, of 200 "Vector2D 400 300" 0]
    unfolding appHexagon_def by blast
qed

text \<open>A ball that stays clear of the inscribed circle's rim touches no edge.\<close>

lemma no_collision_inside:
  assumes r: "0 < r" and clear: "distance c p + R < r * sqrt 3 / 2"
  shows "circleHexagonCollision p R (createHexagon c r rot) =
         \<lparr>isColliding = False, collisionEdge = None, collisionPoint = None,
          penetrationDepth = None\<rparr>"
proof -
  let ?h = "createHexagon c r rot"
  from collision_result [OF refl createHexagon_edges_nonempty, of c r rot p R]
  obtain e where e: "e \<in> set (edges ?h)"
    and res: "circleHexagonCollision p R ?h =
       (if edgeDist p e \<le> R
        then \<lparr>isColliding = True, collisionEdge = Some e, collisionPoint = Some (edgePoint p e),
              penetrationDepth = Some (R - edgeDist p e)\<rparr>
        else \<lparr>isColliding = False, collisionEdge = None, collisionPoint = None,
              penetrationDepth = None\<rparr>)"
    by blast
  obtain t where t: "edgePoint p e = add (e_start e) (multiply (subtract (e_end e) (e_start e)) t)"
    using closestPoint_param [of p "e_start e" "e_end e"] by blast
  have "r * sqrt 3 / 2 \<le> distance c (edgePoint p e)"
    unfolding t using r e by (rule edge_line_far)
  also have "\<dots> \<le> distance c p + distance p (edgePoint p e)" by (rule distance_triangle)
  finally have "R < edgeDist p e" using clear by (simp add: distanceToEdge_distance)
  then show ?thesis by (simp add: res)
qed

lemma clear_near_center:
  assumes "0 < r" "\<bar>t\<bar> * magnitude v + R < r * sqrt 3 / 2"
  shows "\<not> isColliding (circleHexagonCollision (add c (multiply v t)) R (createHexagon c r rot))"
proof -
  have "distance c (add c (multiply v t)) + R < r * sqrt 3 / 2"
    using assms(2) by (simp only: distance_add_multiply)
  from no_collision_inside [OF assms(1) this] show ?thesis by simp
qed

lemma inradius_200: "(173::real) < 200 * sqrt 3 / 2"
proof -
  have "(173 / 100) * (173 / 100) < (3::real)" by simp
  then have "\<bar>173 / 100\<bar> < sqrt (3::real)"
    by (simp only: real_sqrt_abs2 [symmetric] real_sqrt_less_iff)
  then show ?thesis by simp
qed

lemma appHexagon_edges_far:
  "\<forall>e\<in>set (edges (createHexagon (Vector2D 400 300) 200 0)). 12 < edgeDist (Vector2D 400 300) e"
proof
  fix e assume "e \<in> set (edges (createHexagon (Vector2D 400 300) 200 0))"
  then have "edgeDist (Vector2D 400 300) e = 200 * sqrt 3 / 2"
    by (intro center_edge_distance) simp_all
  then show "12 < edgeDist (Vector2D 400 300) e" using inradius_200 by linarith
qed

lemma clear_center_12:
  "\<not> isColliding (circleHexagonCollision (Vector2D 400 300) 12 appHexagon)"
proof -
  have "\<not> isColliding (circleHexagonCollision (add (Vector2D 400 300) (multiply (Vector2D 0 0) 0))
          12 (createHexagon (Vector2D 400 300) 200 0))"
    by (rule clear_near_center) (use inradius_200 in simp_all)
  then show ?thesis by (simp add: add_multiply_zero appHexagon_def)
qed

lemma clear_34:
  "\<not> isColliding (circleHexagonCollision (add (Vector2D 400 300) (multiply (Vector2D 3 4) 0.016))
       12 (createHexagon (Vector2D 400 300) 200 0))"
  by (rule clear_near_center) (use inradius_200 in \<open>simp_all add: magnitude_3_4\<close>)

lemma moved_34: "add (Vector2D 400 300) (multiply (Vector2D 3 4) 0.016) = Vector2D 400.048 300.064"
  by (simp add: add_def multiply_def)

section \<open>The engine: run state and reset\<close>

lemma isRunning_resolveCollision: "isRunning (resolveCollision rnd e d s) = isRunning s"
  by (simp add: resolveCollision_def Let_def)

lemma isRunning_handleCollisions: "isRunning (handleCollisions rnd s) = isRunning s"
  by (simp add: handleCollisions_def Let_def isRunning_resolveCollision split: bool.splits option.splits)

lemma isRunning_update: "isRunning (update rnd dt s) = isRunning s"
  by (simp add: update_def Let_def updateHexagonRotation_def isRunning_handleCollisions
      updatePosition_def limitVelocity_def updateVelocity_def applyFriction_def applyGravity_def)

text \<open>
  Claim C9. While the engine is stopped, \<open>update\<close> changes nothing: the ball state, the
  hexagon, the configuration and the run flag are those of the engine before the call, for
  every timestep and whatever the random draws. Stopped is the state the constructor builds,
  and of all the mutating methods only \<open>start\<close> (called on a stopped engine) and
  \<open>stop\<close> (called on a running one) change the run flag.
\<close>

theorem update_stopped_noop:
  "(\<not> isRunning s \<longrightarrow> update rnd dt s = s)
   \<and> \<not> isRunning (constructor rnd' cfg hex)
   \<and> (isRunning (call m s) \<noteq> isRunning s \<longrightarrow>
        (m = Start \<and> \<not> isRunning s) \<or> (m = Stop \<and> isRunning s))"
proof (intro conjI impI)
  assume "\<not> isRunning s"
  then show "update rnd dt s = s" by (simp add: update_def)
next
  show "\<not> isRunning (constructor rnd' cfg hex)" by (simp add: constructor_def)
next
  assume "isRunning (call m s) \<noteq> isRunning s"
  then show "(m = Start \<and> \<not> isRunning s) \<or> (m = Stop \<and> isRunning s)"
    by (cases m) (auto simp: isRunning_update start_def stop_def reset_def updateConfig_def
        Let_def setBallPosition_def setBallVelocity_def)
qed

theorem update_stopped_noop_witness:
  "\<not> isRunning (constructor (1/2, 1/4) appConfig appHexagon)
   \<and> update (1/2, 1/4) 1 (constructor (1/2, 1/4) appConfig appHexagon)
       = constructor (1/2, 1/4) appConfig appHexagon
   \<and> isRunning (call Start (constructor (1/2, 1/4) appConfig appHexagon))
       \<noteq> isRunning (constructor (1/2, 1/4) appConfig appHexagon)"
  using update_stopped_noop [of "constructor (1/2, 1/4) appConfig appHexagon" "(1/2, 1/4)" 1
      "(1/2, 1/4)" appConfig appHexagon Start]
  by (simp add: start_def)

text \<open>
  Claim C8. Whatever the engine state, \<open>reset\<close> puts the ball at the centre of the stored
  hexagon with zero acceleration, gives it the velocity made from two fresh random draws
  (each component is \<open>(draw - 0.5) * 200\<close>, independent of the previous ball state), and
  leaves the configuration, the stored hexagon and the run flag as they were.
\<close>

theorem reset_effect:
  "position (ballState (reset rnd s)) = center (hexagon s)
   \<and> acceleration (ballState (reset rnd s)) = Vector2D 0 0
   \<and> velocity (ballState (reset rnd s)) = Vector2D ((fst rnd - 0.5) * 200) ((snd rnd - 0.5) * 200)
   \<and> config (reset rnd s) = config s
   \<and> hexagon (reset rnd s) = hexagon s
   \<and> isRunning (reset rnd s) = isRunning s"
  by (simp add: reset_def randomVelocity_def)

lemma runningAt_simps [simp]:
  "isRunning (runningAt cfg v)"
  "config (runningAt cfg v) = cfg"
  "hexagon (runningAt cfg v) = createHexagon (Vector2D 400 300) 200 0"
  "ballState (runningAt cfg v)
     = \<lparr>position = Vector2D 400 300, velocity = v, acceleration = Vector2D 0 0\<rparr>"
  by (simp_all add: runningAt_def appHexagon_def)

lemma runningAt_reachable:
  "runningAt cfg v = setBallVelocity v (start (constructor rnd cfg appHexagon))"
  by (simp add: runningAt_def setBallVelocity_def start_def constructor_def appHexagon_def
      createHexagon_def Let_def)

section \<open>One call of update\<close>

text \<open>Steps 1 to 5 of update, before collision handling.\<close>

lemma integrate_steps:
  "updatePosition dt (limitVelocity (updateVelocity dt (applyFriction dt (applyGravity s)))) =
   (let b = ballState s; v = velocity b; a = acceleration b; p = position b;
        w = Vector2D (vec_x v * (1 - friction (config s) * dt) + vec_x a * dt)
                     (vec_y v * (1 - friction (config s) * dt) + (vec_y a + gravity (config s)) * dt);
        v' = (if magnitude w > maxVelocity (config s)
              then multiply w (maxVelocity (config s) / magnitude w) else w)
    in s\<lparr>ballState := \<lparr>position = add p (multiply v' dt), velocity = v',
                         acceleration = Vector2D 0 0\<rparr>\<rparr>)"
  by (simp add: updatePosition_def limitVelocity_def updateVelocity_def applyFriction_def
      applyGravity_def Let_def add_def multiply_def)

lemma handleCollisions_clear:
  assumes "\<not> isColliding (circleHexagonCollision (position (ballState s)) (ballRadius (config s)) (hexagon s))"
  shows "handleCollisions rnd s = s"
  using assms by (simp add: handleCollisions_def Let_def)

lemma handleCollisions_hit:
  assumes "circleHexagonCollision (position (ballState s)) (ballRadius (config s)) (hexagon s)
           = \<lparr>isColliding = True, collisionEdge = Some e, collisionPoint = Some cp,
              penetrationDepth = Some d\<rparr>"
  shows "handleCollisions rnd s = resolveCollision rnd e d s"
  using assms by (simp add: handleCollisions_def Let_def)

lemma ballState_updateHexagonRotation [simp]:
  "ballState (updateHexagonRotation dt s) = ballState s"
  by (simp add: updateHexagonRotation_def)

lemma update_running:
  assumes "isRunning s"
  shows "update rnd dt s =
    updateHexagonRotation (min dt 0.016) (handleCollisions rnd
      (updatePosition (min dt 0.016) (limitVelocity (updateVelocity (min dt 0.016)
         (applyFriction (min dt 0.016) (applyGravity s))))))"
  using assms by (simp add: update_def Let_def)

text \<open>The whole of update on a running engine whose ball meets no edge after integration.\<close>

lemma update_clear:
  assumes run: "isRunning s"
    and dt: "dt' = min dt 0.016"
    and w: "w = Vector2D
         (vec_x (velocity (ballState s)) * (1 - friction (config s) * dt')
            + vec_x (acceleration (ballState s)) * dt')
         (vec_y (velocity (ballState s)) * (1 - friction (config s) * dt')
            + (vec_y (acceleration (ballState s)) + gravity (config s)) * dt')"
    and v: "v' = (if magnitude w > maxVelocity (config s)
                  then multiply w (maxVelocity (config s) / magnitude w) else w)"
    and clear: "\<not> isColliding (circleHexagonCollision
                   (add (position (ballState s)) (multiply v' dt'))
                   (ballRadius (config s)) (hexagon s))"
  shows "ballState (update rnd dt s) =
           \<lparr>position = add (position (ballState s)) (multiply v' dt'), velocity = v',
            acceleration = Vector2D 0 0\<rparr>"
proof -
  let ?pre = "updatePosition dt' (limitVelocity (updateVelocity dt'
                (applyFriction dt' (applyGravity s))))"
  have pre: "?pre = s\<lparr>ballState := \<lparr>position = add (position (ballState s)) (multiply v' dt'),
                 velocity = v', acceleration = Vector2D 0 0\<rparr>\<rparr>"
    unfolding integrate_steps by (simp only: Let_def w v)
  have "handleCollisions rnd ?pre = ?pre"
    by (rule handleCollisions_clear) (use clear in \<open>simp add: pre\<close>)
  then have "update rnd dt s = updateHexagonRotation dt' ?pre"
    by (simp only: update_running [OF run] dt)
  then show ?thesis by (simp add: pre)
qed

text \<open>update on a running engine whose ball, after integration, meets the edge e at depth d.\<close>

lemma update_hit:
  assumes run: "isRunning s"
    and pre: "pre = updatePosition (min dt 0.016) (limitVelocity (updateVelocity (min dt 0.016)
                (applyFriction (min dt 0.016) (applyGravity s))))"
    and hit: "circleHexagonCollision (position (ballState pre)) (ballRadius (config pre)) (hexagon pre)
           = \<lparr>isColliding = True, collisionEdge = Some e, collisionPoint = Some cp,
              penetrationDepth = Some d\<rparr>"
  shows "ballState (update rnd dt s) = ballState (resolveCollision rnd e d pre)"
  using handleCollisions_hit [OF hit, of rnd]
  by (simp add: update_running [OF run] pre)

lemma acceleration_resolveCollision:
  "acceleration (ballState (resolveCollision rnd e d s)) = acceleration (ballState s)"
  by (simp add: resolveCollision_def Let_def)

lemma acceleration_handleCollisions:
  "acceleration (ballState (handleCollisions rnd s)) = acceleration (ballState s)"
  by (simp add: handleCollisions_def Let_def acceleration_resolveCollision
      split: bool.splits option.splits)

text \<open>The acceleration is zero after construction and after every call.\<close>

lemma acceleration_zero_invariant:
  "acceleration (ballState (constructor rnd cfg hex)) = Vector2D 0 0"
  "acceleration (ballState s) = Vector2D 0 0 \<Longrightarrow> acceleration (ballState (call m s)) = Vector2D 0 0"
proof -
  show "acceleration (ballState (constructor rnd cfg hex)) = Vector2D 0 0"
    by (simp add: constructor_def)
  assume z: "acceleration (ballState s) = Vector2D 0 0"
  have u: "acceleration (ballState (update r dt s)) = Vector2D 0 0" for r dt
  proof (cases "isRunning s")
    case True
    then show ?thesis
      by (simp add: update_running acceleration_handleCollisions integrate_steps Let_def)
  next
    case False
    then show ?thesis by (simp add: update_def z)
  qed
  show "acceleration (ballState (call m s)) = Vector2D 0 0"
    by (cases m) (simp_all add: u z start_def stop_def reset_def updateConfig_def Let_def
        setBallPosition_def setBallVelocity_def)
qed

text \<open>
  Claim C1, amended. On a running engine whose \<open>maxVelocity\<close> is not negative, let
  \<open>dt_e = min dt 0.016\<close>, let \<open>w\<close> be the velocity after drag and acceleration,
  \<open>(vx * (1 - friction * dt_e) + ax * dt_e, vy * (1 - friction * dt_e) + (ay + gravity) * dt_e)\<close>,
  and let \<open>v'\<close> be \<open>w\<close> when its magnitude is at most \<open>maxVelocity\<close> and \<open>w\<close> times
  \<open>maxVelocity / |w|\<close> otherwise. If no collision is detected at \<open>position + v' * dt_e\<close>,
  one call of \<open>update\<close> leaves the ball at that position with velocity \<open>v'\<close> and zero
  acceleration. When \<open>|w|\<close> exceeds \<open>maxVelocity\<close>, \<open>v'\<close> has magnitude exactly
  \<open>maxVelocity\<close> and the factor applied to \<open>w\<close> is not negative (same direction).
\<close>

theorem update_integration:
  assumes run: "isRunning s" and cap: "0 \<le> maxVelocity (config s)"
  shows "let dt_e = min dt 0.016;
             w = Vector2D
               (vec_x (velocity (ballState s)) * (1 - friction (config s) * dt_e)
                  + vec_x (acceleration (ballState s)) * dt_e)
               (vec_y (velocity (ballState s)) * (1 - friction (config s) * dt_e)
                  + (vec_y (acceleration (ballState s)) + gravity (config s)) * dt_e);
             v' = (if magnitude w > maxVelocity (config s)
                   then multiply w (maxVelocity (config s) / magnitude w) else w)
         in \<not> isColliding (circleHexagonCollision
                (add (position (ballState s)) (multiply v' dt_e))
                (ballRadius (config s)) (hexagon s))
            \<longrightarrow> ballState (update rnd dt s) =
                  \<lparr>position = add (position (ballState s)) (multiply v' dt_e), velocity = v',
                   acceleration = Vector2D 0 0\<rparr>
                \<and> (magnitude w > maxVelocity (config s) \<longrightarrow>
                     magnitude v' = maxVelocity (config s)
                     \<and> 0 \<le> maxVelocity (config s) / magnitude w)
                \<and> (magnitude w \<le> maxVelocity (config s) \<longrightarrow> v' = w)"
proof -
  define dt_e where "dt_e = min dt 0.016"
  define w where "w = Vector2D
               (vec_x (velocity (ballState s)) * (1 - friction (config s) * dt_e)
                  + vec_x (acceleration (ballState s)) * dt_e)
               (vec_y (velocity (ballState s)) * (1 - friction (config s) * dt_e)
                  + (vec_y (acceleration (ballState s)) + gravity (config s)) * dt_e)"
  define v' where "v' = (if magnitude w > maxVelocity (config s)
                   then multiply w (maxVelocity (config s) / magnitude w) else w)"
  have main: "ballState (update rnd dt s) =
                  \<lparr>position = add (position (ballState s)) (multiply v' dt_e), velocity = v',
                   acceleration = Vector2D 0 0\<rparr>"
    if "\<not> isColliding (circleHexagonCollision
                (add (position (ballState s)) (multiply v' dt_e))
                (ballRadius (config s)) (hexagon s))"
    using run dt_e_def w_def v'_def that by (rule update_clear)
  have over: "magnitude v' = maxVelocity (config s) \<and> 0 \<le> maxVelocity (config s) / magnitude w"
    if "magnitude w > maxVelocity (config s)"
  proof
    show "magnitude v' = maxVelocity (config s)"
      using clamp_magnitude [OF that cap] that by (simp add: v'_def)
    have "0 < magnitude w" using that cap by simp
    then show "0 \<le> maxVelocity (config s) / magnitude w" using cap by simp
  qed
  have under: "v' = w" if "magnitude w \<le> maxVelocity (config s)"
    using that by (simp add: v'_def)
  from main over under show ?thesis
    unfolding Let_def dt_e_def [symmetric] w_def [symmetric] v'_def [symmetric] by blast
qed

theorem update_integration_witness:
  "isRunning (runningAt (appConfig\<lparr>maxVelocity := 1\<rparr>) (Vector2D 3 4))
   \<and> 0 \<le> maxVelocity (config (runningAt (appConfig\<lparr>maxVelocity := 1\<rparr>) (Vector2D 3 4)))
   \<and> \<not> isColliding (circleHexagonCollision
          (position (ballState (update (1/2, 1/4) 1
             (runningAt (appConfig\<lparr>maxVelocity := 1\<rparr>) (Vector2D 3 4)))))
          12 appHexagon)
   \<and> magnitude (velocity (ballState (update (1/2, 1/4) 1
          (runningAt (appConfig\<lparr>maxVelocity := 1\<rparr>) (Vector2D 3 4))))) = 1
   \<and> acceleration (ballState (update (1/2, 1/4) 1
          (runningAt (appConfig\<lparr>maxVelocity := 1\<rparr>) (Vector2D 3 4)))) = Vector2D 0 0"
proof -
  define s where "s = runningAt (appConfig\<lparr>maxVelocity := 1\<rparr>) (Vector2D 3 4)"
  define dt_e :: real where "dt_e = min 1 0.016"
  define w where "w = Vector2D
               (vec_x (velocity (ballState s)) * (1 - friction (config s) * dt_e)
                  + vec_x (acceleration (ballState s)) * dt_e)
               (vec_y (velocity (ballState s)) * (1 - friction (config s) * dt_e)
                  + (vec_y (acceleration (ballState s)) + gravity (config s)) * dt_e)"
  define v' where "v' = (if magnitude w > maxVelocity (config s)
                   then multiply w (maxVelocity (config s) / magnitude w) else w)"
  have run: "isRunning s" and cap: "0 \<le> maxVelocity (config s)"
    by (simp_all add: s_def)
  have cap1: "maxVelocity (config s) = 1" by (simp add: s_def)
  have dt: "dt_e = 0.016" by (simp add: dt_e_def)
  have "w = Vector2D (3 * (1 - 0.02 * 0.016)) (4 * (1 - 0.02 * 0.016) + 500 * 0.016)"
    by (simp add: w_def s_def dt appConfig_def)
  then have big: "magnitude w > maxVelocity (config s)"
    by (simp add: magnitude_def cap1)
  have v1: "magnitude v' = 1"
    using clamp_magnitude [OF big cap] big by (simp add: v'_def cap1)
  have clear: "\<not> isColliding (circleHexagonCollision
                (add (position (ballState s)) (multiply v' dt_e))
                (ballRadius (config s)) (hexagon s))"
  proof -
    have "\<bar>dt_e\<bar> * magnitude v' + 12 < 200 * sqrt 3 / 2"
      using inradius_200 by (simp add: v1 dt)
    then have "\<not> isColliding (circleHexagonCollision (add (Vector2D 400 300) (multiply v' dt_e))
                 12 (createHexagon (Vector2D 400 300) 200 0))"
      by (intro clear_near_center) simp_all
    then show ?thesis by (simp add: s_def appConfig_def)
  qed
  from update_integration [OF run cap, of 1 "(1/2, 1/4)"]
  have "\<not> isColliding (circleHexagonCollision
                (add (position (ballState s)) (multiply v' dt_e))
                (ballRadius (config s)) (hexagon s))
            \<longrightarrow> ballState (update (1/2, 1/4) 1 s) =
                  \<lparr>position = add (position (ballState s)) (multiply v' dt_e), velocity = v',
                   acceleration = Vector2D 0 0\<rparr>
                \<and> (magnitude w > maxVelocity (config s) \<longrightarrow>
                     magnitude v' = maxVelocity (config s)
                     \<and> 0 \<le> maxVelocity (config s) / magnitude w)
                \<and> (magnitude w \<le> maxVelocity (config s) \<longrightarrow> v' = w)"
    unfolding Let_def dt_e_def [symmetric] w_def [symmetric] v'_def [symmetric] .
  with clear big have res: "ballState (update (1/2, 1/4) 1 s) =
                  \<lparr>position = add (position (ballState s)) (multiply v' dt_e), velocity = v',
                   acceleration = Vector2D 0 0\<rparr>"
    and m: "magnitude v' = maxVelocity (config s)" by blast+
  have "\<not> isColliding (circleHexagonCollision (position (ballState (update (1/2, 1/4) 1 s)))
          12 appHexagon)"
    using clear by (simp add: res) (simp add: s_def appConfig_def appHexagon_def)
  with run cap m res show ?thesis
    unfolding s_def [symmetric] by (simp add: cap1)
qed

text \<open>
  Claim C1 as stated fails where \<open>maxVelocity\<close> is negative, a value the engine accepts.
  With velocity \<open>(3, 4)\<close>, \<open>maxVelocity = -1\<close> and \<open>dt = 0\<close> the ball stays at the centre,
  no collision is detected, the speed 5 exceeds \<open>maxVelocity\<close>, and the velocity becomes
  \<open>(-3/5, -4/5)\<close>: its magnitude is 1, not \<open>maxVelocity\<close>, and its direction is reversed.
\<close>

theorem negative_cap_reverses_velocity:
  "isRunning (runningAt (appConfig\<lparr>maxVelocity := - 1\<rparr>) (Vector2D 3 4))
   \<and> \<not> isColliding (circleHexagonCollision (Vector2D 400 300)
          (ballRadius (appConfig\<lparr>maxVelocity := - 1\<rparr>)) appHexagon)
   \<and> maxVelocity (appConfig\<lparr>maxVelocity := - 1\<rparr>) < magnitude (Vector2D 3 4)
   \<and> ballState (update (1/2, 1/4) 0 (runningAt (appConfig\<lparr>maxVelocity := - 1\<rparr>) (Vector2D 3 4)))
       = \<lparr>position = Vector2D 400 300, velocity = Vector2D (- (3 / 5)) (- (4 / 5)),
          acceleration = Vector2D 0 0\<rparr>
   \<and> magnitude (Vector2D (- (3 / 5)) (- (4 / 5))) \<noteq> maxVelocity (appConfig\<lparr>maxVelocity := - 1\<rparr>)"
proof -
  define s where "s = runningAt (appConfig\<lparr>maxVelocity := - 1\<rparr>) (Vector2D 3 4)"
  have clear0: "\<not> isColliding (circleHexagonCollision (add (Vector2D 400 300)
                   (multiply (Vector2D (- (3 / 5)) (- (4 / 5))) 0)) 12
                   (createHexagon (Vector2D 400 300) 200 0))"
    by (rule clear_near_center) (use inradius_200 in simp_all)
  have p0: "\<And>p v. add p (multiply v 0) = p"
    by (simp add: add_def multiply_def)
  have "ballState (update (1/2, 1/4) 0 s) =
           \<lparr>position = add (position (ballState s)) (multiply (Vector2D (- (3 / 5)) (- (4 / 5))) 0),
            velocity = Vector2D (- (3 / 5)) (- (4 / 5)), acceleration = Vector2D 0 0\<rparr>"
  proof (rule update_clear [where dt' = 0 and w = "Vector2D 3 4"])
    show "isRunning s" by (simp add: s_def)
    show "(0::real) = min 0 0.016" by simp
    show "Vector2D 3 4 = Vector2D
         (vec_x (velocity (ballState s)) * (1 - friction (config s) * 0)
            + vec_x (acceleration (ballState s)) * 0)
         (vec_y (velocity (ballState s)) * (1 - friction (config s) * 0)
            + (vec_y (acceleration (ballState s)) + gravity (config s)) * 0)"
      by (simp add: s_def)
    show "Vector2D (- (3 / 5)) (- (4 / 5)) =
       (if magnitude (Vector2D 3 4) > maxVelocity (config s)
        then multiply (Vector2D 3 4) (maxVelocity (config s) / magnitude (Vector2D 3 4))
        else Vector2D 3 4)"
      by (simp add: s_def magnitude_3_4 multiply_def)
    show "\<not> isColliding (circleHexagonCollision
             (add (position (ballState s)) (multiply (Vector2D (- (3 / 5)) (- (4 / 5))) 0))
             (ballRadius (config s)) (hexagon s))"
      using clear0 by (simp add: s_def appConfig_def)
  qed
  then have res: "ballState (update (1/2, 1/4) 0 s) =
       \<lparr>position = Vector2D 400 300, velocity = Vector2D (- (3 / 5)) (- (4 / 5)),
          acceleration = Vector2D 0 0\<rparr>"
    by (simp add: s_def p0)
  have m: "magnitude (Vector2D (- (3 / 5)) (- (4 / 5))) = 1"
    by (simp add: magnitude_def)
  have c: "\<not> isColliding (circleHexagonCollision (Vector2D 400 300)
          (ballRadius (appConfig\<lparr>maxVelocity := - 1\<rparr>)) appHexagon)"
    using clear0 by (simp add: p0 appConfig_def appHexagon_def)
  show ?thesis
    using res c unfolding s_def by (simp add: m magnitude_3_4)
qed

text \<open>The ball at the centre, at velocity (3, 4), under a cap of 1: update with dt = 0.\<close>

lemma clamped_34:
  assumes cap: "maxVelocity cfg = 1" and rad: "ballRadius cfg = 12"
  shows "ballState (update rnd 0 (runningAt cfg (Vector2D 3 4))) =
           \<lparr>position = Vector2D 400 300, velocity = Vector2D (3 / 5) (4 / 5),
            acceleration = Vector2D 0 0\<rparr>"
proof -
  let ?s = "runningAt cfg (Vector2D 3 4)"
  have c0: "\<not> isColliding (circleHexagonCollision (add (Vector2D 400 300)
                   (multiply (Vector2D (3 / 5) (4 / 5)) 0)) 12
                   (createHexagon (Vector2D 400 300) 200 0))"
    by (rule clear_near_center) (use inradius_200 in simp_all)
  have "ballState (update rnd 0 ?s) =
           \<lparr>position = add (position (ballState ?s)) (multiply (Vector2D (3 / 5) (4 / 5)) 0),
            velocity = Vector2D (3 / 5) (4 / 5), acceleration = Vector2D 0 0\<rparr>"
  proof (rule update_clear [where dt' = 0 and w = "Vector2D 3 4"])
    show "isRunning ?s" by simp
    show "(0::real) = min 0 0.016" by simp
    show "Vector2D 3 4 = Vector2D
         (vec_x (velocity (ballState ?s)) * (1 - friction (config ?s) * 0)
            + vec_x (acceleration (ballState ?s)) * 0)
         (vec_y (velocity (ballState ?s)) * (1 - friction (config ?s) * 0)
            + (vec_y (acceleration (ballState ?s)) + gravity (config ?s)) * 0)"
      by simp
    show "Vector2D (3 / 5) (4 / 5) =
       (if magnitude (Vector2D 3 4) > maxVelocity (config ?s)
        then multiply (Vector2D 3 4) (maxVelocity (config ?s) / magnitude (Vector2D 3 4))
        else Vector2D 3 4)"
      by (simp add: cap magnitude_3_4 multiply_def)
    show "\<not> isColliding (circleHexagonCollision
             (add (position (ballState ?s)) (multiply (Vector2D (3 / 5) (4 / 5)) 0))
             (ballRadius (config ?s)) (hexagon ?s))"
      using c0 by (simp add: rad)
  qed
  then show ?thesis by (simp add: add_multiply_zero)
qed

text \<open>
  Claim C7, amended. On a running engine with zero gravity and zero friction, whose stored
  acceleration is zero (as it is after construction and after every call) and whose speed is
  at most \<open>maxVelocity\<close>, if no collision is detected at
  \<open>position + velocity * min dt 0.016\<close>, one call of \<open>update\<close> moves the ball to exactly
  that position and leaves its velocity unchanged.
\<close>

theorem update_free_flight:
  assumes run: "isRunning s"
    and g: "gravity (config s) = 0" and f: "friction (config s) = 0"
    and a: "acceleration (ballState s) = Vector2D 0 0"
    and cap: "magnitude (velocity (ballState s)) \<le> maxVelocity (config s)"
    and clear: "\<not> isColliding (circleHexagonCollision
                  (add (position (ballState s)) (multiply (velocity (ballState s)) (min dt 0.016)))
                  (ballRadius (config s)) (hexagon s))"
  shows "position (ballState (update rnd dt s))
           = add (position (ballState s)) (multiply (velocity (ballState s)) (min dt 0.016))
         \<and> velocity (ballState (update rnd dt s)) = velocity (ballState s)"
proof -
  have "ballState (update rnd dt s) =
           \<lparr>position = add (position (ballState s)) (multiply (velocity (ballState s)) (min dt 0.016)),
            velocity = velocity (ballState s), acceleration = Vector2D 0 0\<rparr>"
  proof (rule update_clear [OF run refl, where w = "velocity (ballState s)"])
    show "velocity (ballState s) = Vector2D
         (vec_x (velocity (ballState s)) * (1 - friction (config s) * min dt 0.016)
            + vec_x (acceleration (ballState s)) * min dt 0.016)
         (vec_y (velocity (ballState s)) * (1 - friction (config s) * min dt 0.016)
            + (vec_y (acceleration (ballState s)) + gravity (config s)) * min dt 0.016)"
      by (simp add: g f a)
    show "velocity (ballState s) =
       (if magnitude (velocity (ballState s)) > maxVelocity (config s)
        then multiply (velocity (ballState s))
               (maxVelocity (config s) / magnitude (velocity (ballState s)))
        else velocity (ballState s))"
      using cap by simp
    show "\<not> isColliding (circleHexagonCollision
                  (add (position (ballState s)) (multiply (velocity (ballState s)) (min dt 0.016)))
                  (ballRadius (config s)) (hexagon s))"
      by (rule clear)
  qed
  then show ?thesis by simp
qed

theorem update_free_flight_witness:
  "isRunning (runningAt freeConfig (Vector2D 3 4))
   \<and> gravity freeConfig = 0 \<and> friction freeConfig = 0
   \<and> magnitude (Vector2D 3 4) \<le> maxVelocity freeConfig
   \<and> position (ballState (update (1/2, 1/4) 1 (runningAt freeConfig (Vector2D 3 4))))
       = Vector2D 400.048 300.064
   \<and> velocity (ballState (update (1/2, 1/4) 1 (runningAt freeConfig (Vector2D 3 4))))
       = Vector2D 3 4"
proof -
  let ?s = "runningAt freeConfig (Vector2D 3 4)"
  have c: "\<not> isColliding (circleHexagonCollision
                  (add (position (ballState ?s)) (multiply (velocity (ballState ?s)) (min 1 0.016)))
                  (ballRadius (config ?s)) (hexagon ?s))"
    using clear_34 by (simp add: freeConfig_def appConfig_def)
  have "position (ballState (update (1/2, 1/4) 1 ?s))
           = add (position (ballState ?s)) (multiply (velocity (ballState ?s)) (min 1 0.016))
         \<and> velocity (ballState (update (1/2, 1/4) 1 ?s)) = velocity (ballState ?s)"
    by (rule update_free_flight [OF _ _ _ _ _ c])
       (simp_all add: freeConfig_def appConfig_def magnitude_3_4)
  then show ?thesis
    using moved_34 by (simp add: freeConfig_def appConfig_def magnitude_3_4)
qed

text \<open>
  Claim C7 as stated fails in two ways. With the caller's \<open>dt = 1\<close> the engine integrates
  over 0.016: the ball at \<open>(400, 300)\<close> with velocity \<open>(3, 4)\<close> ends at
  \<open>(400.048, 300.064)\<close>, not at \<open>(403, 304)\<close>. And with a speed above \<open>maxVelocity\<close>
  (here 5 against 1) the call changes the velocity, to \<open>(3/5, 4/5)\<close>. Gravity and friction
  are zero and no collision is detected in either case.
\<close>

theorem free_flight_is_clamped:
  "isRunning (runningAt freeConfig (Vector2D 3 4))
   \<and> gravity freeConfig = 0 \<and> friction freeConfig = 0
   \<and> \<not> isColliding (circleHexagonCollision (Vector2D 400.048 300.064)
          (ballRadius freeConfig) appHexagon)
   \<and> position (ballState (update (1/2, 1/4) 1 (runningAt freeConfig (Vector2D 3 4))))
       = Vector2D 400.048 300.064
   \<and> Vector2D 400.048 300.064 \<noteq> add (Vector2D 400 300) (multiply (Vector2D 3 4) 1)
   \<and> isRunning (runningAt (freeConfig\<lparr>maxVelocity := 1\<rparr>) (Vector2D 3 4))
   \<and> gravity (freeConfig\<lparr>maxVelocity := 1\<rparr>) = 0
   \<and> friction (freeConfig\<lparr>maxVelocity := 1\<rparr>) = 0
   \<and> \<not> isColliding (circleHexagonCollision (Vector2D 400 300)
          (ballRadius (freeConfig\<lparr>maxVelocity := 1\<rparr>)) appHexagon)
   \<and> ballState (update (1/2, 1/4) 0 (runningAt (freeConfig\<lparr>maxVelocity := 1\<rparr>) (Vector2D 3 4)))
       = \<lparr>position = Vector2D 400 300, velocity = Vector2D (3 / 5) (4 / 5),
          acceleration = Vector2D 0 0\<rparr>
   \<and> Vector2D (3 / 5) (4 / 5) \<noteq> Vector2D 3 4"
proof -
  let ?s = "runningAt freeConfig (Vector2D 3 4)"
  have r12: "ballRadius freeConfig = 12" by (simp add: freeConfig_def appConfig_def)
  have c1: "\<not> isColliding (circleHexagonCollision (Vector2D 400.048 300.064)
          (ballRadius freeConfig) appHexagon)"
  proof -
    have "\<not> isColliding (circleHexagonCollision (Vector2D 400.048 300.064) 12
            (createHexagon (Vector2D 400 300) 200 0))"
      using clear_34 unfolding moved_34 .
    then show ?thesis by (simp add: r12 appHexagon_def)
  qed
  have "ballState (update (1/2, 1/4) 1 ?s) =
           \<lparr>position = add (position (ballState ?s)) (multiply (Vector2D 3 4) 0.016),
            velocity = Vector2D 3 4, acceleration = Vector2D 0 0\<rparr>"
  proof (rule update_clear [where dt' = "0.016" and w = "Vector2D 3 4"])
    show "isRunning ?s" by simp
    show "(0.016::real) = min 1 0.016" by simp
    show "Vector2D 3 4 = Vector2D
         (vec_x (velocity (ballState ?s)) * (1 - friction (config ?s) * 0.016)
            + vec_x (acceleration (ballState ?s)) * 0.016)
         (vec_y (velocity (ballState ?s)) * (1 - friction (config ?s) * 0.016)
            + (vec_y (acceleration (ballState ?s)) + gravity (config ?s)) * 0.016)"
      by (simp add: freeConfig_def appConfig_def)
    show "Vector2D 3 4 =
       (if magnitude (Vector2D 3 4) > maxVelocity (config ?s)
        then multiply (Vector2D 3 4) (maxVelocity (config ?s) / magnitude (Vector2D 3 4))
        else Vector2D 3 4)"
      by (simp add: magnitude_3_4 freeConfig_def appConfig_def)
    show "\<not> isColliding (circleHexagonCollision
             (add (position (ballState ?s)) (multiply (Vector2D 3 4) 0.016))
             (ballRadius (config ?s)) (hexagon ?s))"
      using clear_34 by (simp add: freeConfig_def appConfig_def)
  qed
  then have p1: "position (ballState (update (1/2, 1/4) 1 ?s)) = Vector2D 400.048 300.064"
    using moved_34 by simp
  have c2: "\<not> isColliding (circleHexagonCollision (Vector2D 400 300)
          (ballRadius (freeConfig\<lparr>maxVelocity := 1\<rparr>)) appHexagon)"
    using clear_center_12 by (simp add: freeConfig_def appConfig_def)
  have b2: "ballState (update (1/2, 1/4) 0 (runningAt (freeConfig\<lparr>maxVelocity := 1\<rparr>) (Vector2D 3 4)))
       = \<lparr>position = Vector2D 400 300, velocity = Vector2D (3 / 5) (4 / 5),
          acceleration = Vector2D 0 0\<rparr>"
    by (rule clamped_34) (simp_all add: freeConfig_def appConfig_def)
  have n1: "Vector2D 400.048 300.064 \<noteq> add (Vector2D 400 300) (multiply (Vector2D 3 4) 1)"
    by (simp add: add_def multiply_def)
  have z: "gravity freeConfig = 0" "friction freeConfig = 0"
    "gravity (freeConfig\<lparr>maxVelocity := 1\<rparr>) = 0" "friction (freeConfig\<lparr>maxVelocity := 1\<rparr>) = 0"
    by (simp_all add: freeConfig_def)
  show ?thesis
    using c1 p1 c2 b2 n1 z by simp
qed

text \<open>The ball of radius 200 at the centre, at velocity (0, 100): update with dt = 0.\<close>

lemma overlap_hit:
  assumes rad: "ballRadius cfg = 200" and cap: "100 \<le> maxVelocity cfg"
  shows "ballState (update rnd 0 (runningAt cfg (Vector2D 0 100)))
         = ballState (resolveCollision rnd (edges appHexagon ! 0) (200 - 200 * sqrt 3 / 2)
             (runningAt cfg (Vector2D 0 100)))"
proof -
  let ?s = "runningAt cfg (Vector2D 0 100)"
  have pre: "?s = updatePosition (min 0 0.016) (limitVelocity (updateVelocity (min 0 0.016)
                (applyFriction (min 0 0.016) (applyGravity ?s))))"
    using cap
    by (simp add: integrate_steps Let_def add_multiply_zero magnitude_0_100 runningAt_def)
  have "200 * sqrt 3 / 2 \<le> (200::real)" using sqrt3_bounds(2) by linarith
  from collision_at_center [OF _ this, of "Vector2D 400 300" 0]
  have "circleHexagonCollision (position (ballState ?s)) (ballRadius (config ?s)) (hexagon ?s)
      = \<lparr>isColliding = True, collisionEdge = Some (edges appHexagon ! 0),
         collisionPoint = Some (edgePoint (Vector2D 400 300) (edges appHexagon ! 0)),
         penetrationDepth = Some (200 - 200 * sqrt 3 / 2)\<rparr>"
    by (simp add: rad appHexagon_def)
  with pre show ?thesis by (intro update_hit) simp_all
qed

lemma overlap_velocity:
  shows "vec_y (reflectedVelocity cfg (edges appHexagon ! 0) (Vector2D 0 100))
         = 100 - 50 * restitution cfg"
    and "vec_x (reflectedVelocity cfg (edges appHexagon ! 0) (Vector2D 0 100))
         = - (50 * sqrt 3 * restitution cfg)"
  by (simp_all add: reflectedVelocity_def Let_def dot_def appHexagon_edge0(2))

text \<open>
  Claim C10. On a running engine whose speed is at most \<open>maxVelocity\<close> and whose ball
  centre is farther than \<open>ballRadius\<close> from every edge of the stored hexagon, \<open>update\<close>
  with timestep 0 leaves position and velocity as they were. Neither hypothesis can be
  dropped: there is a running engine within the speed cap whose ball overlaps an edge, and
  there is a running engine clear of every edge whose speed exceeds the cap, and for each of
  them \<open>update\<close> with timestep 0 changes the velocity.
\<close>

theorem update_zero_timestep:
  "(isRunning s
      \<and> magnitude (velocity (ballState s)) \<le> maxVelocity (config s)
      \<and> (\<forall>e\<in>set (edges (hexagon s)). ballRadius (config s) < edgeDist (position (ballState s)) e)
     \<longrightarrow> position (ballState (update rnd 0 s)) = position (ballState s)
         \<and> velocity (ballState (update rnd 0 s)) = velocity (ballState s))
   \<and> (\<exists>s'. isRunning s'
         \<and> magnitude (velocity (ballState s')) \<le> maxVelocity (config s')
         \<and> (\<exists>e\<in>set (edges (hexagon s')).
               edgeDist (position (ballState s')) e \<le> ballRadius (config s'))
         \<and> velocity (ballState (update rnd 0 s')) \<noteq> velocity (ballState s'))
   \<and> (\<exists>s'. isRunning s'
         \<and> maxVelocity (config s') < magnitude (velocity (ballState s'))
         \<and> (\<forall>e\<in>set (edges (hexagon s')).
               ballRadius (config s') < edgeDist (position (ballState s')) e)
         \<and> velocity (ballState (update rnd 0 s')) \<noteq> velocity (ballState s'))"
proof -
  have stay: "isRunning s
      \<and> magnitude (velocity (ballState s)) \<le> maxVelocity (config s)
      \<and> (\<forall>e\<in>set (edges (hexagon s)). ballRadius (config s) < edgeDist (position (ballState s)) e)
     \<longrightarrow> position (ballState (update rnd 0 s)) = position (ballState s)
         \<and> velocity (ballState (update rnd 0 s)) = velocity (ballState s)"
  proof (rule impI)
    assume h: "isRunning s
      \<and> magnitude (velocity (ballState s)) \<le> maxVelocity (config s)
      \<and> (\<forall>e\<in>set (edges (hexagon s)). ballRadius (config s) < edgeDist (position (ballState s)) e)"
    then have clear: "\<not> isColliding (circleHexagonCollision (position (ballState s))
                         (ballRadius (config s)) (hexagon s))"
      by (intro no_collision_far) blast
    have "ballState (update rnd 0 s) =
             \<lparr>position = add (position (ballState s)) (multiply (velocity (ballState s)) 0),
              velocity = velocity (ballState s), acceleration = Vector2D 0 0\<rparr>"
    proof (rule update_clear [where dt' = 0 and w = "velocity (ballState s)"])
      show "isRunning s" using h by blast
      show "(0::real) = min 0 0.016" by simp
      show "velocity (ballState s) = Vector2D
           (vec_x (velocity (ballState s)) * (1 - friction (config s) * 0)
              + vec_x (acceleration (ballState s)) * 0)
           (vec_y (velocity (ballState s)) * (1 - friction (config s) * 0)
              + (vec_y (acceleration (ballState s)) + gravity (config s)) * 0)"
        by simp
      show "velocity (ballState s) =
         (if magnitude (velocity (ballState s)) > maxVelocity (config s)
          then multiply (velocity (ballState s))
                 (maxVelocity (config s) / magnitude (velocity (ballState s)))
          else velocity (ballState s))"
        using h by simp
      show "\<not> isColliding (circleHexagonCollision
               (add (position (ballState s)) (multiply (velocity (ballState s)) 0))
               (ballRadius (config s)) (hexagon s))"
        using clear by (simp add: add_multiply_zero)
    qed
    then show "position (ballState (update rnd 0 s)) = position (ballState s)
           \<and> velocity (ballState (update rnd 0 s)) = velocity (ballState s)"
      by (simp add: add_multiply_zero)
  qed
  have overlap: "\<exists>s'. isRunning s'
         \<and> magnitude (velocity (ballState s')) \<le> maxVelocity (config s')
         \<and> (\<exists>e\<in>set (edges (hexagon s')).
               edgeDist (position (ballState s')) e \<le> ballRadius (config s'))
         \<and> velocity (ballState (update rnd 0 s')) \<noteq> velocity (ballState s')"
  proof -
    let ?cfg = "appConfig\<lparr>ballRadius := 200\<rparr>"
    let ?s = "runningAt ?cfg (Vector2D 0 100)"
    have d: "edgeDist (Vector2D 400 300) (edges appHexagon ! 0) = 200 * sqrt 3 / 2"
      using appHexagon_edge0(1) unfolding appHexagon_def
      by (intro center_edge_distance) simp_all
    have near: "\<exists>e\<in>set (edges (hexagon ?s)).
                 edgeDist (position (ballState ?s)) e \<le> ballRadius (config ?s)"
    proof (intro bexI [of _ "edges appHexagon ! 0"])
      show "edgeDist (position (ballState ?s)) (edges appHexagon ! 0) \<le> ballRadius (config ?s)"
        using d sqrt3_bounds(2) by (simp add: appConfig_def)
      show "edges appHexagon ! 0 \<in> set (edges (hexagon ?s))"
        using appHexagon_edge0(1) by (simp add: appHexagon_def)
    qed
    have "ballState (update rnd 0 ?s)
           = ballState (resolveCollision rnd (edges appHexagon ! 0) (200 - 200 * sqrt 3 / 2) ?s)"
      by (rule overlap_hit) (simp_all add: appConfig_def)
    then have "vec_y (velocity (ballState (update rnd 0 ?s))) = 60"
      by (simp add: resolveCollision_def Let_def overlap_velocity appConfig_def)
    then have "velocity (ballState (update rnd 0 ?s)) \<noteq> velocity (ballState ?s)"
      by auto
    with near show ?thesis
      by (intro exI [of _ ?s]) (simp add: magnitude_0_100 appConfig_def)
  qed
  have fast: "\<exists>s'. isRunning s'
         \<and> maxVelocity (config s') < magnitude (velocity (ballState s'))
         \<and> (\<forall>e\<in>set (edges (hexagon s')).
               ballRadius (config s') < edgeDist (position (ballState s')) e)
         \<and> velocity (ballState (update rnd 0 s')) \<noteq> velocity (ballState s')"
  proof -
    let ?cfg = "appConfig\<lparr>maxVelocity := 1\<rparr>"
    let ?s = "runningAt ?cfg (Vector2D 3 4)"
    have "ballState (update rnd 0 ?s) =
             \<lparr>position = Vector2D 400 300, velocity = Vector2D (3 / 5) (4 / 5),
              acceleration = Vector2D 0 0\<rparr>"
      by (rule clamped_34) (simp_all add: appConfig_def)
    then have "velocity (ballState (update rnd 0 ?s)) \<noteq> velocity (ballState ?s)"
      by simp
    with appHexagon_edges_far show ?thesis
      by (intro exI [of _ ?s]) (simp add: magnitude_3_4 appConfig_def)
  qed
  show ?thesis by (rule conjI [OF stay conjI [OF overlap fast]])
qed

theorem update_zero_timestep_witness:
  "isRunning (runningAt appConfig (Vector2D 3 4))
   \<and> magnitude (Vector2D 3 4) \<le> maxVelocity appConfig
   \<and> position (ballState (update (1/2, 1/4) 0 (runningAt appConfig (Vector2D 3 4))))
       = Vector2D 400 300
   \<and> velocity (ballState (update (1/2, 1/4) 0 (runningAt appConfig (Vector2D 3 4))))
       = Vector2D 3 4"
proof -
  let ?s = "runningAt appConfig (Vector2D 3 4)"
  have h: "isRunning ?s
      \<and> magnitude (velocity (ballState ?s)) \<le> maxVelocity (config ?s)
      \<and> (\<forall>e\<in>set (edges (hexagon ?s)). ballRadius (config ?s) < edgeDist (position (ballState ?s)) e)"
    using appHexagon_edges_far by (simp add: magnitude_3_4 appConfig_def)
  from update_zero_timestep [of ?s "(1/2, 1/4)"] h
  have "position (ballState (update (1/2, 1/4) 0 ?s)) = position (ballState ?s)
         \<and> velocity (ballState (update (1/2, 1/4) 0 ?s)) = velocity (ballState ?s)"
    by blast
  then show ?thesis by (simp add: magnitude_3_4 appConfig_def)
qed

section \<open>The reflection step\<close>

text \<open>Reflection about a unit normal, scaled by a restitution in [0, 1], does not lengthen.\<close>

lemma alg_reflect:
  fixes vx vy nx ny k :: real
  assumes n: "nx * nx + ny * ny = 1"
  shows "(vx - 2 * (vx * nx + vy * ny) * nx * k) * (vx - 2 * (vx * nx + vy * ny) * nx * k)
       + (vy - 2 * (vx * nx + vy * ny) * ny * k) * (vy - 2 * (vx * nx + vy * ny) * ny * k)
       = (vx * vx + vy * vy) - 4 * k * (1 - k) * ((vx * nx + vy * ny) * (vx * nx + vy * ny))"
  using n by algebra

lemma reflectedVelocity_shorter:
  assumes n: "vec_x (normal e) * vec_x (normal e) + vec_y (normal e) * vec_y (normal e) = 1"
    and k: "0 \<le> restitution cfg" "restitution cfg \<le> 1"
  shows "magnitude (reflectedVelocity cfg e v) \<le> magnitude v"
proof -
  let ?d = "vec_x v * vec_x (normal e) + vec_y v * vec_y (normal e)"
  have "0 \<le> restitution cfg * (1 - restitution cfg)" using k by simp
  then have "0 \<le> 4 * restitution cfg * (1 - restitution cfg) * (?d * ?d)" by simp
  then have "(vec_x v * vec_x v + vec_y v * vec_y v)
          - 4 * restitution cfg * (1 - restitution cfg) * (?d * ?d)
          \<le> vec_x v * vec_x v + vec_y v * vec_y v" by linarith
  then show ?thesis
    unfolding magnitude_def reflectedVelocity_def Let_def dot_def Vector2D.sel
      alg_reflect [OF n]
    by (rule real_sqrt_le_mono)
qed

text \<open>
  Claim C2, amended. For every edge of a hexagon built by \<open>createHexagon\<close> with positive
  radius and every incident velocity, the velocity that the reflection step of
  \<open>resolveCollision\<close> computes, \<open>v - 2 * restitution * (v . n) * n\<close>, is no longer than
  the incident velocity whenever \<open>0 \<le> restitution \<le> 1\<close>. It is the velocity that
  \<open>resolveCollision\<close> stores unless both of its components are below 10 in absolute value,
  the case in which the random perturbation is added.
\<close>

theorem reflection_not_faster:
  assumes r: "0 < r" and e: "e \<in> set (edges (createHexagon c r rot))"
    and k: "0 \<le> restitution (config s)" "restitution (config s) \<le> 1"
  shows "magnitude (reflectedVelocity (config s) e (velocity (ballState s)))
           \<le> magnitude (velocity (ballState s))
         \<and> (\<not> (\<bar>vec_x (reflectedVelocity (config s) e (velocity (ballState s)))\<bar> < 10
               \<and> \<bar>vec_y (reflectedVelocity (config s) e (velocity (ballState s)))\<bar> < 10)
              \<longrightarrow> velocity (ballState (resolveCollision rnd e d s))
                    = reflectedVelocity (config s) e (velocity (ballState s)))"
proof
  show "magnitude (reflectedVelocity (config s) e (velocity (ballState s)))
           \<le> magnitude (velocity (ballState s))"
    using createHexagon_normal_unit [OF r e] k by (rule reflectedVelocity_shorter)
  show "\<not> (\<bar>vec_x (reflectedVelocity (config s) e (velocity (ballState s)))\<bar> < 10
               \<and> \<bar>vec_y (reflectedVelocity (config s) e (velocity (ballState s)))\<bar> < 10)
              \<longrightarrow> velocity (ballState (resolveCollision rnd e d s))
                    = reflectedVelocity (config s) e (velocity (ballState s))"
    by (simp add: resolveCollision_def Let_def)
qed

theorem reflection_not_faster_witness:
  "(0::real) < 200
   \<and> edges appHexagon ! 0 \<in> set (edges appHexagon)
   \<and> 0 \<le> restitution appConfig \<and> restitution appConfig \<le> 1
   \<and> magnitude (reflectedVelocity appConfig (edges appHexagon ! 0) (Vector2D 0 100))
        \<le> magnitude (Vector2D 0 100)
   \<and> velocity (ballState (resolveCollision (1/2, 1/4) (edges appHexagon ! 0) 1
          (runningAt appConfig (Vector2D 0 100))))
       = Vector2D (- (40 * sqrt 3)) 60"
proof -
  let ?s = "runningAt appConfig (Vector2D 0 100)"
  have r: "(0::real) < 200" by simp
  have e: "edges appHexagon ! 0 \<in> set (edges (createHexagon (Vector2D 400 300) 200 0))"
    using appHexagon_edge0(1) by (simp add: appHexagon_def)
  have k: "0 \<le> restitution (config ?s)" "restitution (config ?s) \<le> 1"
    by (simp_all add: appConfig_def)
  have v: "reflectedVelocity appConfig (edges appHexagon ! 0) (Vector2D 0 100)
           = Vector2D (- (40 * sqrt 3)) 60"
    by (simp add: reflectedVelocity_def Let_def dot_def appHexagon_edge0(2) appConfig_def)
  have "magnitude (reflectedVelocity appConfig (edges appHexagon ! 0) (Vector2D 0 100))
           \<le> magnitude (Vector2D 0 100)
         \<and> (\<not> (\<bar>vec_x (reflectedVelocity appConfig (edges appHexagon ! 0) (Vector2D 0 100))\<bar> < 10
               \<and> \<bar>vec_y (reflectedVelocity appConfig (edges appHexagon ! 0) (Vector2D 0 100))\<bar> < 10)
              \<longrightarrow> velocity (ballState (resolveCollision (1/2, 1/4) (edges appHexagon ! 0) 1 ?s))
                    = reflectedVelocity appConfig (edges appHexagon ! 0) (Vector2D 0 100))"
    using reflection_not_faster [OF r e k, of "(1/2, 1/4)" 1] by simp
  then have "magnitude (reflectedVelocity appConfig (edges appHexagon ! 0) (Vector2D 0 100))
           \<le> magnitude (Vector2D 0 100)"
    and "velocity (ballState (resolveCollision (1/2, 1/4) (edges appHexagon ! 0) 1 ?s))
           = Vector2D (- (40 * sqrt 3)) 60"
    by (simp_all add: v)
  then show ?thesis
    using appHexagon_edge0(1) by (simp add: appConfig_def)
qed

text \<open>
  Claim C2 as stated fails for a negative restitution, which is at most 1 and which the
  engine accepts. With restitution \<open>-1\<close> and the ball of radius 200 at the centre of the
  component's hexagon, the colliding edge is the first one, with normal
  \<open>(- sqrt 3 / 2, - 1 / 2)\<close>; the incident velocity \<open>(0, 100)\<close> is reflected to
  \<open>(50 * sqrt 3, 150)\<close>, which is longer.
\<close>

theorem reflection_negative_restitution:
  "(0::real) < 200
   \<and> restitution (appConfig\<lparr>restitution := - 1\<rparr>) \<le> 1
   \<and> edges appHexagon ! 0 \<in> set (edges appHexagon)
   \<and> collisionEdge (circleHexagonCollision (Vector2D 400 300) 200 appHexagon)
       = Some (edges appHexagon ! 0)
   \<and> reflectedVelocity (appConfig\<lparr>restitution := - 1\<rparr>) (edges appHexagon ! 0) (Vector2D 0 100)
       = Vector2D (50 * sqrt 3) 150
   \<and> magnitude (Vector2D 0 100) < magnitude (Vector2D (50 * sqrt 3) 150)"
proof -
  have "200 * sqrt 3 / 2 \<le> (200::real)" using sqrt3_bounds(2) by linarith
  from collision_at_center [OF _ this, of "Vector2D 400 300" 0]
  have c: "collisionEdge (circleHexagonCollision (Vector2D 400 300) 200 appHexagon)
       = Some (edges appHexagon ! 0)"
    by (simp add: appHexagon_def)
  have v: "reflectedVelocity (appConfig\<lparr>restitution := - 1\<rparr>) (edges appHexagon ! 0) (Vector2D 0 100)
       = Vector2D (50 * sqrt 3) 150"
    by (simp add: reflectedVelocity_def Let_def dot_def appHexagon_edge0(2))
  have "(50 * sqrt 3) * (50 * sqrt 3) + 150 * 150 = (30000::real)" by simp
  then have "magnitude (Vector2D (50 * sqrt 3) 150) = sqrt 30000"
    by (simp only: magnitude_def Vector2D.sel)
  moreover have "sqrt (100 * 100) < sqrt (30000::real)"
    by (simp only: real_sqrt_less_iff)
  then have "100 < sqrt (30000::real)" by (simp only: real_sqrt_abs2 abs_numeral)
  ultimately have m: "magnitude (Vector2D 0 100) < magnitude (Vector2D (50 * sqrt 3) 150)"
    by (simp only: magnitude_0_100)
  show ?thesis using c v m appHexagon_edge0(1) by simp
qed

end
